theory Spec2Isabelle
  imports Main "HOL-Library.Multiset"
begin

section \<open>Wheel of Life: scoring, insights, snapshots and the chart adapter\<close>

text \<open>
  A shallow embedding of \<^verbatim>\<open>src/app/page.tsx\<close> and of the chart component
  (\<^verbatim>\<open>WheelChart\<close>). React state is a record that every handler takes and returns;
  the values the platform supplies (\<^verbatim>\<open>Date.now()\<close>, the random id, the formatted
  date, \<^verbatim>\<open>JSON.parse\<close>, the content of \<^verbatim>\<open>localStorage\<close>) are arguments.

  Strings are lists of 8-bit characters holding the UTF-8 text of the source; the few
  characters of the source's literals outside ASCII are written as their UTF-8 bytes.
  \<^verbatim>\<open>trim\<close> and \<^verbatim>\<open>toLowerCase\<close> are written out for ASCII text; on any other text
  they are the functions of the platform, a parameter of the model.
  Scores are integers (\<^typ>\<open>int\<close>): every write of the source stores the number of a
  slider with step 1, or the constant 5.
\<close>

subsection \<open>Plain objects used as dictionaries\<close>

text \<open>
  The source keeps scores and the suggestion table in object literals
  (\<^verbatim>\<open>Record<string, T>\<close>). A dictionary is modelled by the map of its own
  properties. Reading \<^verbatim>\<open>obj[k]\<close> searches the own properties first and then
  \<^verbatim>\<open>Object.prototype\<close>, which every object literal inherits from; so a read yields
  an own value, a member of \<^verbatim>\<open>Object.prototype\<close>, or \<^verbatim>\<open>undefined\<close>
  (\<^term>\<open>None\<close>).
\<close>

datatype 'a js = Val 'a | ObjectPrototype string

definition Object_prototype_names :: "string list" where
  "Object_prototype_names =
     [''constructor'', ''__defineGetter__'', ''__defineSetter__'', ''hasOwnProperty'',
      ''__lookupGetter__'', ''__lookupSetter__'', ''isPrototypeOf'',
      ''propertyIsEnumerable'', ''toString'', ''valueOf'', ''__proto__'',
      ''toLocaleString'']"

definition inherited :: "string \<Rightarrow> 'a js option" where
  "inherited k = (if k \<in> set Object_prototype_names then Some (ObjectPrototype k) else None)"

text \<open>\<^verbatim>\<open>obj[k]\<close> where the own properties hold values that may themselves be anything.\<close>

definition get_js :: "(string \<rightharpoonup> 'a js) \<Rightarrow> string \<Rightarrow> 'a js option" where
  "get_js obj k = (case obj k of Some v \<Rightarrow> Some v | None \<Rightarrow> inherited k)"

text \<open>\<^verbatim>\<open>obj[k]\<close> where every own property holds a plain value of the declared type.\<close>

definition get :: "(string \<rightharpoonup> 'a) \<Rightarrow> string \<Rightarrow> 'a js option" where
  "get obj k = (case obj k of Some v \<Rightarrow> Some (Val v) | None \<Rightarrow> inherited k)"

text \<open>\<^verbatim>\<open>x ?? d\<close>: the default replaces \<^verbatim>\<open>undefined\<close> only.\<close>

definition nullish :: "'a js option \<Rightarrow> 'a \<Rightarrow> 'a js" where
  "nullish x d = (case x of None \<Rightarrow> Val d | Some v \<Rightarrow> v)"

text \<open>\<^verbatim>\<open>typeof x === 'number'\<close> for a read of a number-valued dictionary: the members
  of \<^verbatim>\<open>Object.prototype\<close> are functions and objects.\<close>

fun is_number :: "int js option \<Rightarrow> bool" where
  "is_number (Some (Val n)) = True"
| "is_number (Some (ObjectPrototype k)) = False"
| "is_number None = False"

text \<open>The number a value stands for in arithmetic. The source only computes with
  values that have passed the \<^verbatim>\<open>typeof\<close> filter, so the second equation is never
  reached from \<open>generateInsights\<close> (lemma \<open>active_score\<close> below).\<close>

fun number_of :: "int js \<Rightarrow> int" where
  "number_of (Val n) = n"
| "number_of (ObjectPrototype k) = 0"

subsection \<open>Numbers as text\<close>

definition digit :: "nat \<Rightarrow> char" where
  "digit d = ''0123456789'' ! d"

fun show_nat :: "nat \<Rightarrow> string" where
  "show_nat n =
     (if n < 10 then [digit n] else show_nat (n div 10) @ [digit (n mod 10)])"

text \<open>The number a decimal numeral denotes.\<close>

definition digit_value :: "char \<Rightarrow> nat" where
  "digit_value c = of_char c - 48"

definition decimal_value :: "string \<Rightarrow> nat" where
  "decimal_value ds = foldl (\<lambda>v c. 10 * v + digit_value c) 0 ds"

declare show_nat.simps [simp del]

definition show_int :: "int \<Rightarrow> string" where
  "show_int i = (if i < 0 then ''-'' @ show_nat (nat (- i)) else show_nat (nat i))"

subsection \<open>Categories\<close>

record category =
  c_id :: string
  c_label :: string
  c_description :: string

definition DEFAULT_CATEGORIES :: "category list" where
  "DEFAULT_CATEGORIES =
     [\<lparr>c_id = ''health'', c_label = ''Health & Energy'',
        c_description = ''Physical health, sleep, energy, and overall wellbeing.''\<rparr>,
      \<lparr>c_id = ''career'', c_label = ''Career & Work'',
        c_description = ''Progress, fulfillment, and alignment at work or in studies.''\<rparr>,
      \<lparr>c_id = ''relationships'', c_label = ''Relationships'',
        c_description = ''Family, friends, partner, and social support.''\<rparr>,
      \<lparr>c_id = ''finance'', c_label = ''Finances'',
        c_description = ''Income, savings, security, and money habits.''\<rparr>,
      \<lparr>c_id = ''growth'', c_label = ''Personal Growth'',
        c_description = ''Learning, mindset, and self-development.''\<rparr>,
      \<lparr>c_id = ''fun'', c_label = ''Fun & Recreation'',
        c_description = ''Play, hobbies, and activities that recharge you.''\<rparr>,
      \<lparr>c_id = ''environment'', c_label = ''Environment'',
        c_description = ''Home, workspace, and surroundings.''\<rparr>,
      \<lparr>c_id = ''spirituality'', c_label = ''Meaning & Spirituality'',
        c_description = ''Purpose, values, and connection to something bigger.''\<rparr>]"

subsection \<open>The suggestion table\<close>

text \<open>U+2011 (non-breaking hyphen), U+2019 (right single quotation mark), U+2013 (en
  dash) and U+2014 (em dash) in UTF-8.\<close>

definition nb_hyphen :: string where
  "nb_hyphen = [CHR 0xE2, CHR 0x80, CHR 0x91]"

definition right_quote :: string where
  "right_quote = [CHR 0xE2, CHR 0x80, CHR 0x99]"

definition en_dash :: string where
  "en_dash = [CHR 0xE2, CHR 0x80, CHR 0x93]"

definition em_dash :: string where
  "em_dash = [CHR 0xE2, CHR 0x80, CHR 0x94]"

definition health_text :: string where
  "health_text = ''Pick one tiny habit this week (a 10'' @ nb_hyphen
     @ ''minute walk, stretching, or lights'' @ nb_hyphen
     @ ''out time) that would noticeably improve your energy.''"

definition career_text :: string where
  "career_text = ''Clarify your next small career move: a conversation, a course, or a project that moves you one step forward.''"

definition relationships_text :: string where
  "relationships_text = ''Schedule one meaningful check'' @ nb_hyphen
     @ ''in or shared activity with someone important to you.''"

definition finance_text :: string where
  "finance_text = ''Decide on one simple money habit: a weekly budget review, an automatic transfer, or tracking expenses.''"

definition growth_text :: string where
  "growth_text = ''Choose one skill or topic to focus on this month and block out two learning sessions in your calendar.''"

definition fun_text :: string where
  "fun_text = ''Plan a small, guilt'' @ nb_hyphen @ ''free activity this week that''
     @ right_quote @ ''s just for enjoyment and recharge.''"

definition environment_text :: string where
  "environment_text = ''Identify one small improvement to your space (decluttering, lighting, or setup) and schedule it.''"

definition spirituality_text :: string where
  "spirituality_text = ''Set aside a short daily or weekly ritual (reflection, journaling, or quiet time) to reconnect with your values.''"

text \<open>The own properties of the object literal \<^verbatim>\<open>suggestions\<close>.\<close>

definition suggestions :: "string \<rightharpoonup> string" where
  "suggestions =
     [''health'' \<mapsto> health_text, ''career'' \<mapsto> career_text,
      ''relationships'' \<mapsto> relationships_text, ''finance'' \<mapsto> finance_text,
      ''growth'' \<mapsto> growth_text, ''fun'' \<mapsto> fun_text,
      ''environment'' \<mapsto> environment_text, ''spirituality'' \<mapsto> spirituality_text]"

definition fallback_text :: "string \<Rightarrow> string" where
  \<open>fallback_text label =
     ''Choose one small, realistic action this week that would move your "'' @ label
       @ ''" score up by just one point.''\<close>

definition suggestForCategory :: "string \<Rightarrow> string \<Rightarrow> string js" where
  "suggestForCategory ident label = nullish (get suggestions ident) (fallback_text label)"

subsection \<open>Sorting\<close>

text \<open>
  \<^verbatim>\<open>Array.prototype.sort\<close> is stable and, for a consistent comparator, returns the
  elements in nondecreasing order; there is one such arrangement, and a stable insertion
  sort computes it. \<open>cmp a b \<le> 0\<close> keeps \<open>a\<close>, the earlier element, in front.
\<close>

fun insert_by :: "('a \<Rightarrow> 'a \<Rightarrow> int) \<Rightarrow> 'a \<Rightarrow> 'a list \<Rightarrow> 'a list" where
  "insert_by cmp x [] = [x]"
| "insert_by cmp x (y # ys) =
     (if cmp x y \<le> 0 then x # y # ys else y # insert_by cmp x ys)"

definition sort_by :: "('a \<Rightarrow> 'a \<Rightarrow> int) \<Rightarrow> 'a list \<Rightarrow> 'a list" where
  "sort_by cmp xs = foldr (insert_by cmp) xs []"

subsection \<open>The average and its text\<close>

text \<open>
  \<^verbatim>\<open>avg = sum / n\<close> is a binary64 division and \<^verbatim>\<open>avg.toFixed(1)\<close> prints the
  double. Both are modelled exactly with integers. A positive double is \<open>m / 2 ^ t\<close> with
  \<open>2 ^ 52 \<le> m \<le> 2 ^ 53\<close>: \<open>scale\<close> finds the exponent, \<open>round_half_even\<close> the
  mantissa (round to nearest, ties to even). The model is exact for sums that are safe
  integers and quotients below \<open>2 ^ 53\<close>.
\<close>

function scale :: "nat \<Rightarrow> nat \<Rightarrow> nat \<Rightarrow> nat" where
  "scale s n t = (if 0 < s \<and> s * 2 ^ t < 2 ^ 52 * n then scale s n (Suc t) else t)"
  by pat_completeness auto
termination
proof (relation "measure (\<lambda>(s, n, t). 2 ^ 52 * n - s * 2 ^ t)")
  show "wf (measure (\<lambda>(s, n, t). 2 ^ 52 * n - s * 2 ^ t))"
    by simp
next
  fix s n t :: nat
  assume a: "0 < s \<and> s * 2 ^ t < 2 ^ 52 * n"
  then have "s * 2 ^ t < s * 2 ^ Suc t"
    by simp
  moreover from a have "s * 2 ^ t < 2 ^ 52 * n"
    by simp
  ultimately have "2 ^ 52 * n - s * 2 ^ Suc t < 2 ^ 52 * n - s * 2 ^ t"
    by (rule diff_less_mono2)
  then show "((s, n, Suc t), (s, n, t)) \<in> measure (\<lambda>(s, n, t). 2 ^ 52 * n - s * 2 ^ t)"
    by simp
qed

declare scale.simps [simp del]

definition round_half_even :: "nat \<Rightarrow> nat \<Rightarrow> nat" where
  "round_half_even a b =
     (let q = a div b; r = a mod b
      in if 2 * r < b then q else if b < 2 * r then q + 1
         else if even q then q else q + 1)"

text \<open>The double nearest to \<open>s / n\<close>, as mantissa and exponent: its value is
  \<open>m / 2 ^ t\<close>.\<close>

definition divide64 :: "nat \<Rightarrow> nat \<Rightarrow> nat \<times> nat" where
  "divide64 s n = (let t = scale s n 0 in (round_half_even (s * 2 ^ t) n, t))"

text \<open>\<^verbatim>\<open>x.toFixed(1)\<close> for \<open>x = m / 2 ^ t \<ge> 0\<close>: the integer \<open>k\<close> with \<open>k / 10\<close>
  nearest to \<open>x\<close>, the larger one of two, printed with the point before its last
  digit.\<close>

definition tenths :: "nat \<times> nat \<Rightarrow> nat" where
  "tenths x = (case x of (m, t) \<Rightarrow> (20 * m + 2 ^ t) div 2 ^ Suc t)"

definition fixed1 :: "nat \<Rightarrow> string" where
  "fixed1 k = show_nat (k div 10) @ ''.'' @ show_nat (k mod 10)"

text \<open>\<^verbatim>\<open>(sum / n).toFixed(1)\<close>. Division and \<^verbatim>\<open>toFixed\<close> are symmetric in the sign,
  and \<^verbatim>\<open>toFixed\<close> prints the sign of a negative double even when its digits are
  zero.\<close>

definition avg_text :: "int \<Rightarrow> nat \<Rightarrow> string" where
  "avg_text tot n =
     (if tot < 0 then ''-'' @ fixed1 (tenths (divide64 (nat (- tot)) n))
      else fixed1 (tenths (divide64 (nat tot) n)))"

subsection \<open>The insight engine\<close>

record insights =
  summary :: string
  highlights :: "string list"
  actions :: "string js list"

text \<open>\<^verbatim>\<open>scores[c.label] ?? 0\<close>, read as a number.\<close>

definition score :: "(string \<rightharpoonup> int) \<Rightarrow> category \<Rightarrow> int" where
  "score scores c = number_of (nullish (get scores (c_label c)) 0)"

definition active :: "category list \<Rightarrow> (string \<rightharpoonup> int) \<Rightarrow> category list" where
  "active categories scores = filter (\<lambda>c. is_number (get scores (c_label c))) categories"

definition lowestSorted :: "category list \<Rightarrow> (string \<rightharpoonup> int) \<Rightarrow> category list" where
  "lowestSorted categories scores =
     sort_by (\<lambda>a b. score scores a - score scores b) (active categories scores)"

definition lowest :: "category list \<Rightarrow> (string \<rightharpoonup> int) \<Rightarrow> category list" where
  "lowest categories scores = take 3 (lowestSorted categories scores)"

definition placeholder_summary :: string where
  "placeholder_summary = ''Rate each area from 0'' @ en_dash
     @ ''10 to see how balanced your current Wheel of Life feels.''"

definition summary_text :: "int \<Rightarrow> nat \<Rightarrow> string" where
  "summary_text tot n =
     ''Your average score is '' @ avg_text tot n @ ''/10 across '' @ show_nat n
       @ '' areas. A balanced wheel is less about perfection and more about feeling steady overall.''"

definition highlight :: "(string \<rightharpoonup> int) \<Rightarrow> category \<Rightarrow> string" where
  "highlight scores cat =
     c_label cat @ '': '' @ show_int (score scores cat) @ ''/10 '' @ em_dash
       @ '' a small improvement here could have an outsized impact on your overall balance.''"

definition generateInsights :: "category list \<Rightarrow> (string \<rightharpoonup> int) \<Rightarrow> insights" where
  "generateInsights categories scores =
     (if active categories scores = []
      then \<lparr>summary = placeholder_summary, highlights = [], actions = []\<rparr>
      else
        let vals = map (score scores) (active categories scores);
            tot = foldl (\<lambda>acc v. acc + v) 0 vals
        in \<lparr>summary = summary_text tot (length (active categories scores)),
            highlights = map (highlight scores) (lowest categories scores),
            actions = map (\<lambda>cat. suggestForCategory (c_id cat) (c_label cat))
                        (lowest categories scores)\<rparr>)"

subsection \<open>Strings: trim, lower case, the id pattern\<close>

text \<open>
  \<^verbatim>\<open>String.prototype.trim\<close> and \<^verbatim>\<open>String.prototype.toLowerCase\<close> follow the Unicode
  tables. On a string of ASCII characters \<^verbatim>\<open>trim\<close> strips the six ASCII white space
  characters from both ends and \<^verbatim>\<open>toLowerCase\<close> maps A-Z to a-z; that is written out
  below. On a string with any other character the result is what the platform computes,
  given by the two functions of a \<open>platform\<close>.
\<close>

record platform =
  trim_unicode :: "string \<Rightarrow> string"
  toLowerCase_unicode :: "string \<Rightarrow> string"

definition ascii :: "string \<Rightarrow> bool" where
  "ascii s \<longleftrightarrow> list_all (\<lambda>c. (of_char c :: nat) < 128) s"

definition is_space :: "char \<Rightarrow> bool" where
  "is_space c \<longleftrightarrow> c \<in> set [CHR 0x09, CHR 0x0A, CHR 0x0B, CHR 0x0C, CHR 0x0D, CHR 0x20]"

definition trim :: "platform \<Rightarrow> string \<Rightarrow> string" where
  "trim pf s =
     (if ascii s then rev (dropWhile is_space (rev (dropWhile is_space s)))
      else trim_unicode pf s)"

definition lower_char :: "char \<Rightarrow> char" where
  "lower_char c =
     (let n = (of_char c :: nat) in if 65 \<le> n \<and> n \<le> 90 then char_of (n + 32) else c)"

definition toLowerCase :: "platform \<Rightarrow> string \<Rightarrow> string" where
  "toLowerCase pf s = (if ascii s then map lower_char s else toLowerCase_unicode pf s)"

text \<open>A platform for runs on ASCII text, where neither of its functions is called.\<close>

definition ascii_platform :: platform where
  "ascii_platform = \<lparr>trim_unicode = (\<lambda>s. s), toLowerCase_unicode = (\<lambda>s. s)\<rparr>"

text \<open>The character class \<^verbatim>\<open>[a-z0-9]\<close>.\<close>

definition az09 :: "char \<Rightarrow> bool" where
  "az09 c \<longleftrightarrow> c \<in> set ''abcdefghijklmnopqrstuvwxyz0123456789''"

text \<open>\<^verbatim>\<open>s.replace(/[^a-z0-9]+/g, '-')\<close>: each maximal run of characters outside the
  class becomes one hyphen. The bytes of a character outside ASCII are all outside the
  class, as its code units are, so the result is the same on the UTF-8 text.\<close>

function replace_runs :: "string \<Rightarrow> string" where
  "replace_runs [] = []"
| "replace_runs (c # cs) =
     (if az09 c then c # replace_runs cs
      else CHR ''-'' # replace_runs (dropWhile (\<lambda>d. \<not> az09 d) cs))"
  by pat_completeness auto
termination
  by (relation "measure length") (auto simp: length_dropWhile_le less_Suc_eq_le)

subsection \<open>Session state and its handlers\<close>

record StoredAssessment =
  a_id :: string
  a_name :: string
  a_createdAt :: string
  a_scores :: "string \<rightharpoonup> int"
  a_categories :: "category list"

text \<open>The state of \<^verbatim>\<open>Home\<close> that the handlers below read or write
  (\<^verbatim>\<open>exportUrl\<close> and \<^verbatim>\<open>userName\<close> only feed the chart export).\<close>

record state =
  categories :: "category list"
  scores :: "string \<rightharpoonup> int"
  customLabel :: string
  customDescription :: string
  assessments :: "StoredAssessment list"
  selectedComparisonId :: "string option"
  isSaving :: bool

definition initial_state :: state where
  "initial_state =
     \<lparr>categories = DEFAULT_CATEGORIES,
      scores = foldl (\<lambda>initial c. initial(c_label c \<mapsto> 5)) Map.empty DEFAULT_CATEGORIES,
      customLabel = [], customDescription = [], assessments = [],
      selectedComparisonId = None, isSaving = False\<rparr>"

definition handleScoreChange :: "state \<Rightarrow> string \<Rightarrow> int \<Rightarrow> state" where
  "handleScoreChange st label v = st\<lparr>scores := (scores st)(label \<mapsto> v)\<rparr>"

text \<open>\<open>now\<close> is \<^verbatim>\<open>Date.now()\<close>.\<close>

definition handleAddCategory :: "platform \<Rightarrow> state \<Rightarrow> int \<Rightarrow> state" where
  "handleAddCategory pf st now =
     (let trimmed = trim pf (customLabel st) in
      if trimmed = [] then st
      else if list_ex (\<lambda>c. toLowerCase pf (c_label c) = toLowerCase pf trimmed) (categories st)
      then st
      else
        let ident = replace_runs (toLowerCase pf trimmed);
            newCat = \<lparr>c_id = (if ident = [] then ''custom-'' @ show_int now else ident),
                      c_label = trimmed,
                      c_description =
                        (if trim pf (customDescription st) = []
                         then ''A custom area of life that matters to you.''
                         else trim pf (customDescription st))\<rparr>
        in st\<lparr>categories := categories st @ [newCat],
               scores := (scores st)(c_label newCat \<mapsto> 5),
               customLabel := [], customDescription := []\<rparr>)"

definition handleRemoveCategory :: "state \<Rightarrow> string \<Rightarrow> state" where
  "handleRemoveCategory st ident =
     st\<lparr>categories := filter (\<lambda>c. c_id c \<noteq> ident) (categories st),
        scores :=
          (case find (\<lambda>c. c_id c = ident) (categories st) of
             Some cat \<Rightarrow> (scores st)(c_label cat := None)
           | None \<Rightarrow> scores st)\<rparr>"

text \<open>\<open>newId\<close> is the random id, \<open>date\<close> and \<open>time\<close> the formatted local date and time,
  \<open>isoTime\<close> is \<^verbatim>\<open>now.toISOString()\<close>. \<^verbatim>\<open>isSaving\<close> is set and reset within the handler.\<close>

definition handleSaveAssessment :: "state \<Rightarrow> string \<Rightarrow> string \<Rightarrow> string \<Rightarrow> string \<Rightarrow> state" where
  "handleSaveAssessment st newId date time isoTime =
     (let snapshot = \<lparr>a_id = newId, a_name = ''Assessment '' @ date @ '' '' @ time,
                       a_createdAt = isoTime, a_scores = scores st,
                       a_categories = categories st\<rparr>
      in st\<lparr>assessments := snapshot # assessments st,
             selectedComparisonId := Some newId, isSaving := False\<rparr>)"

text \<open>The remove button of a category is rendered only while
  \<^verbatim>\<open>categories.length > 4\<close>, one button per category of the registry.\<close>

definition remove_offered :: "state \<Rightarrow> string \<Rightarrow> bool" where
  "remove_offered st ident \<longleftrightarrow>
     4 < length (categories st) \<and> ident \<in> set (map c_id (categories st))"

datatype operation =
    SetScore string int
  | AddCategory string string int
  | RemoveCategory string

text \<open>The handlers as called: the add form is filled in and submitted.\<close>

fun apply_op :: "platform \<Rightarrow> state \<Rightarrow> operation \<Rightarrow> state" where
  "apply_op pf st (SetScore label v) = handleScoreChange st label v"
| "apply_op pf st (AddCategory label descr now) =
     handleAddCategory pf (st\<lparr>customLabel := label, customDescription := descr\<rparr>) now"
| "apply_op pf st (RemoveCategory ident) = handleRemoveCategory st ident"

text \<open>The same operations through the page: a removal happens only by a rendered
  button.\<close>

fun ui_op :: "platform \<Rightarrow> state \<Rightarrow> operation \<Rightarrow> state" where
  "ui_op pf st (RemoveCategory ident) =
     (if remove_offered st ident then handleRemoveCategory st ident else st)"
| "ui_op pf st op = apply_op pf st op"

subsection \<open>The handlers on a store of objects\<close>

text \<open>
  The records above hold values. To tell a copy from an alias and a new object from a
  write in place, the same handlers are written once more over a store: every object
  literal, spread, \<^verbatim>\<open>filter\<close> and array literal of the source allocates a cell at the
  next unused address, a state variable holds the address of its object, and the
  \<^verbatim>\<open>delete\<close> of the source writes the cell it is applied to. There are three kinds of
  cells: score objects, arrays of categories (holding the addresses of their elements),
  and category objects.
\<close>

record snapshot_ref =
  r_id :: string
  r_name :: string
  r_createdAt :: string
  r_scores :: nat
  r_categories :: nat

record memory =
  score_objects :: "nat \<Rightarrow> (string \<rightharpoonup> int)"
  arrays :: "nat \<Rightarrow> nat list"
  category_objects :: "nat \<Rightarrow> category"
  unused :: nat
  categoriesRef :: nat
  scoresRef :: nat
  m_customLabel :: string
  m_customDescription :: string
  m_assessments :: "snapshot_ref list"
  m_selectedComparisonId :: "string option"
  m_isSaving :: bool

definition new_scores :: "(string \<rightharpoonup> int) \<Rightarrow> memory \<Rightarrow> nat \<times> memory" where
  "new_scores obj m =
     (unused m, m\<lparr>score_objects := (score_objects m)(unused m := obj), unused := Suc (unused m)\<rparr>)"

definition new_array :: "nat list \<Rightarrow> memory \<Rightarrow> nat \<times> memory" where
  "new_array elems m =
     (unused m, m\<lparr>arrays := (arrays m)(unused m := elems), unused := Suc (unused m)\<rparr>)"

definition new_category :: "category \<Rightarrow> memory \<Rightarrow> nat \<times> memory" where
  "new_category c m =
     (unused m, m\<lparr>category_objects := (category_objects m)(unused m := c),
                   unused := Suc (unused m)\<rparr>)"

text \<open>\<^verbatim>\<open>delete obj[k]\<close>, a write to the object at address \<open>a\<close>.\<close>

definition delete_key :: "nat \<Rightarrow> string \<Rightarrow> memory \<Rightarrow> memory" where
  "delete_key a k m = m\<lparr>score_objects := (score_objects m)(a := (score_objects m a)(k := None))\<rparr>"

text \<open>The module constant \<^verbatim>\<open>DEFAULT_CATEGORIES\<close> is an array (address 8) of eight
  objects (addresses 0 to 7); the initial scores are one more object (address 9).\<close>

definition initial_memory :: memory where
  "initial_memory =
     \<lparr>score_objects = (\<lambda>a. Map.empty)(9 := scores initial_state),
      arrays = (\<lambda>a. [])(8 := [0, 1, 2, 3, 4, 5, 6, 7]),
      category_objects =
        (\<lambda>a. if a < 8 then DEFAULT_CATEGORIES ! a
             else \<lparr>c_id = [], c_label = [], c_description = []\<rparr>),
      unused = 10, categoriesRef = 8, scoresRef = 9,
      m_customLabel = [], m_customDescription = [], m_assessments = [],
      m_selectedComparisonId = None, m_isSaving = False\<rparr>"

text \<open>\<^verbatim>\<open>setScores((prev) => ({ ...prev, [label]: value }))\<close>: one new object.\<close>

definition handleScoreChange_m :: "memory \<Rightarrow> string \<Rightarrow> int \<Rightarrow> memory" where
  "handleScoreChange_m m label v =
     (case new_scores ((score_objects m (scoresRef m))(label \<mapsto> v)) m of
        (obj, m1) \<Rightarrow> m1\<lparr>scoresRef := obj\<rparr>)"

text \<open>The new category object, the array \<^verbatim>\<open>[...prev, newCat]\<close> and the object
  \<^verbatim>\<open>{ ...prev, [newCat.label]: 5 }\<close>.\<close>

definition handleAddCategory_m :: "platform \<Rightarrow> memory \<Rightarrow> int \<Rightarrow> memory" where
  "handleAddCategory_m pf m now =
     (let trimmed = trim pf (m_customLabel m) in
      if trimmed = [] then m
      else if list_ex (\<lambda>a. toLowerCase pf (c_label (category_objects m a)) = toLowerCase pf trimmed)
                (arrays m (categoriesRef m))
      then m
      else
        let ident = replace_runs (toLowerCase pf trimmed) in
        (case new_category
                \<lparr>c_id = (if ident = [] then ''custom-'' @ show_int now else ident),
                  c_label = trimmed,
                  c_description =
                    (if trim pf (m_customDescription m) = []
                     then ''A custom area of life that matters to you.''
                     else trim pf (m_customDescription m))\<rparr> m of
           (newCat, m1) \<Rightarrow>
             (case new_array (arrays m (categoriesRef m) @ [newCat]) m1 of
                (arr, m2) \<Rightarrow>
                  (case new_scores ((score_objects m (scoresRef m))(trimmed \<mapsto> 5)) m2 of
                     (obj, m3) \<Rightarrow>
                       m3\<lparr>categoriesRef := arr, scoresRef := obj,
                          m_customLabel := [], m_customDescription := []\<rparr>))))"

text \<open>\<^verbatim>\<open>prev.filter(...)\<close> is a new array; \<^verbatim>\<open>copy = { ...prev }\<close> is a new object, and
  \<^verbatim>\<open>delete copy[cat.label]\<close> writes that object.\<close>

definition handleRemoveCategory_m :: "memory \<Rightarrow> string \<Rightarrow> memory" where
  "handleRemoveCategory_m m ident =
     (case new_array (filter (\<lambda>a. c_id (category_objects m a) \<noteq> ident)
                        (arrays m (categoriesRef m))) m of
        (arr, m1) \<Rightarrow>
          (case new_scores (score_objects m (scoresRef m)) m1 of
             (copy, m2) \<Rightarrow>
               (case find (\<lambda>a. c_id (category_objects m a) = ident) (arrays m (categoriesRef m)) of
                  Some cat \<Rightarrow> delete_key copy (c_label (category_objects m cat)) m2
                | None \<Rightarrow> m2)
               \<lparr>categoriesRef := arr, scoresRef := copy\<rparr>))"

text \<open>\<^verbatim>\<open>scores: { ...scores }\<close> is a new object and \<^verbatim>\<open>categories: [...categories]\<close> a
  new array with the same elements: the category objects are shared with the live
  array.\<close>

definition handleSaveAssessment_m :: "memory \<Rightarrow> string \<Rightarrow> string \<Rightarrow> string \<Rightarrow> string \<Rightarrow> memory" where
  "handleSaveAssessment_m m newId date time isoTime =
     (case new_scores (score_objects m (scoresRef m)) m of
        (obj, m1) \<Rightarrow>
          (case new_array (arrays m (categoriesRef m)) m1 of
             (arr, m2) \<Rightarrow>
               m2\<lparr>m_assessments :=
                    \<lparr>r_id = newId, r_name = ''Assessment '' @ date @ '' '' @ time,
                      r_createdAt = isoTime, r_scores = obj, r_categories = arr\<rparr>
                    # m_assessments m,
                  m_selectedComparisonId := Some newId, m_isSaving := False\<rparr>))"

datatype event = Op operation | Save string string string string

fun apply_op_m :: "platform \<Rightarrow> memory \<Rightarrow> operation \<Rightarrow> memory" where
  "apply_op_m pf m (SetScore label v) = handleScoreChange_m m label v"
| "apply_op_m pf m (AddCategory label descr now) =
     handleAddCategory_m pf (m\<lparr>m_customLabel := label, m_customDescription := descr\<rparr>) now"
| "apply_op_m pf m (RemoveCategory ident) = handleRemoveCategory_m m ident"

fun step_m :: "platform \<Rightarrow> memory \<Rightarrow> event \<Rightarrow> memory" where
  "step_m pf m (Op op) = apply_op_m pf m op"
| "step_m pf m (Save newId date time isoTime) = handleSaveAssessment_m m newId date time isoTime"

text \<open>The handlers on values, with the save among the events.\<close>

fun step :: "platform \<Rightarrow> state \<Rightarrow> event \<Rightarrow> state" where
  "step pf st (Op op) = apply_op pf st op"
| "step pf st (Save newId date time isoTime) = handleSaveAssessment st newId date time isoTime"

text \<open>What the store holds, read as values: the live registry and scores, and the
  content of a snapshot.\<close>

definition categories_of :: "memory \<Rightarrow> category list" where
  "categories_of m = map (category_objects m) (arrays m (categoriesRef m))"

definition scores_of :: "memory \<Rightarrow> (string \<rightharpoonup> int)" where
  "scores_of m = score_objects m (scoresRef m)"

definition snapshot_of :: "memory \<Rightarrow> snapshot_ref \<Rightarrow> StoredAssessment" where
  "snapshot_of m r =
     \<lparr>a_id = r_id r, a_name = r_name r, a_createdAt = r_createdAt r,
      a_scores = score_objects m (r_scores r),
      a_categories = map (category_objects m) (arrays m (r_categories r))\<rparr>"

definition view :: "memory \<Rightarrow> state" where
  "view m =
     \<lparr>categories = categories_of m, scores = scores_of m,
      customLabel = m_customLabel m, customDescription = m_customDescription m,
      assessments = map (snapshot_of m) (m_assessments m),
      selectedComparisonId = m_selectedComparisonId m, isSaving = m_isSaving m\<rparr>"

text \<open>\<open>m'\<close> keeps every cell that \<open>m\<close> has allocated.\<close>

definition keeps :: "memory \<Rightarrow> memory \<Rightarrow> bool" where
  "keeps m m' \<longleftrightarrow>
     unused m \<le> unused m'
     \<and> (\<forall>a. a < unused m \<longrightarrow>
            score_objects m' a = score_objects m a \<and> arrays m' a = arrays m a
            \<and> category_objects m' a = category_objects m a)"

text \<open>Every address the state reaches is below the next unused one.\<close>

definition allocated :: "memory \<Rightarrow> bool" where
  "allocated m \<longleftrightarrow>
     categoriesRef m < unused m \<and> scoresRef m < unused m
     \<and> list_all (\<lambda>a. a < unused m) (arrays m (categoriesRef m))
     \<and> list_all (\<lambda>r. r_scores r < unused m \<and> r_categories r < unused m
                    \<and> list_all (\<lambda>a. a < unused m) (arrays m (r_categories r)))
          (m_assessments m)"

subsection \<open>The comparison snapshot and the chart data\<close>

record AssessmentSnapshot =
  s_id :: string
  s_name :: string
  s_createdAt :: string
  s_scores :: "string \<rightharpoonup> int js"

text \<open>The assignment \<^verbatim>\<open>obj[k] = v\<close> on an object literal. For every key but
  \<^verbatim>\<open>__proto__\<close> it sets the own property; for \<^verbatim>\<open>__proto__\<close> it calls the inherited
  setter, which creates no property (here \<open>v\<close> is a number, which the setter ignores, or
  \<^verbatim>\<open>Object.prototype\<close> itself).\<close>

definition assign :: "(string \<rightharpoonup> 'a) \<Rightarrow> string \<Rightarrow> 'a \<Rightarrow> (string \<rightharpoonup> 'a)" where
  "assign obj k v = (if k = ''__proto__'' then obj else obj(k \<mapsto> v))"

definition scoresByLabel :: "StoredAssessment \<Rightarrow> (string \<rightharpoonup> int js)" where
  "scoresByLabel found =
     foldl (\<lambda>obj c. assign obj (c_label c) (nullish (get (a_scores found) (c_label c)) 0))
       Map.empty (a_categories found)"

text \<open>\<^verbatim>\<open>!selectedComparisonId\<close> holds for \<^verbatim>\<open>null\<close> and for the empty string.\<close>

definition comparisonSnapshot :: "state \<Rightarrow> AssessmentSnapshot option" where
  "comparisonSnapshot st =
     (case selectedComparisonId st of
        None \<Rightarrow> None
      | Some sel \<Rightarrow>
          if sel = [] then None
          else
            (case find (\<lambda>a. a_id a = sel) (assessments st) of
               None \<Rightarrow> None
             | Some found \<Rightarrow>
                 Some \<lparr>s_id = a_id found, s_name = a_name found,
                       s_createdAt = a_createdAt found, s_scores = scoresByLabel found\<rparr>))"

text \<open>The \<^verbatim>\<open>data\<close> memo of \<^verbatim>\<open>WheelChart\<close>, without the styling constants.\<close>

record dataset =
  d_label :: string
  d_data :: "int js list"

record chart_data =
  labels :: "string list"
  datasets :: "dataset list"

definition currentValues :: "string list \<Rightarrow> (string \<rightharpoonup> int) \<Rightarrow> int js list" where
  "currentValues labs currentScores =
     map (\<lambda>label. nullish (get currentScores label) 0) labs"

definition comparisonValues :: "string list \<Rightarrow> AssessmentSnapshot option \<Rightarrow> int js list option" where
  "comparisonValues labs comparison =
     (case comparison of
        None \<Rightarrow> None
      | Some snap \<Rightarrow> Some (map (\<lambda>label. nullish (get_js (s_scores snap) label) 0) labs))"

definition chartData :: "string list \<Rightarrow> (string \<rightharpoonup> int) \<Rightarrow> AssessmentSnapshot option \<Rightarrow> chart_data" where
  "chartData labs currentScores comparison =
     \<lparr>labels = labs,
      datasets =
        \<lparr>d_label = ''Current Assessment'', d_data = currentValues labs currentScores\<rparr>
        # (case comparisonValues labs comparison of
             None \<Rightarrow> []
           | Some vals \<Rightarrow>
               [\<lparr>d_label =
                    (case comparison of
                       Some snap \<Rightarrow> s_name snap
                     | None \<Rightarrow> ''Previous Assessment''),
                  d_data = vals\<rparr>])\<rparr>"

text \<open>The chart as the page renders it.\<close>

definition page_chart :: "state \<Rightarrow> chart_data" where
  "page_chart st = chartData (map c_label (categories st)) (scores st) (comparisonSnapshot st)"

subsection \<open>Loading the history\<close>

text \<open>A parsed JSON value; a number is \<open>m * 10 ^ e\<close>.\<close>

datatype json =
    JNull
  | JBool bool
  | JNumber int int
  | JString string
  | JArray "json list"
  | JObject "(string \<times> json) list"

text \<open>\<^verbatim>\<open>Array.isArray\<close>.\<close>

fun is_array :: "json \<Rightarrow> bool" where
  "is_array (JArray xs) = True"
| "is_array v = False"

datatype exn = SecurityError | SyntaxError

text \<open>The body of the \<^verbatim>\<open>try\<close> block. \<open>getItem\<close> is the outcome of
  \<^verbatim>\<open>window.localStorage.getItem(STORAGE_KEY)\<close> (\<^term>\<open>Inr None\<close> is \<^verbatim>\<open>null\<close>) and
  \<open>parse\<close> is \<^verbatim>\<open>JSON.parse\<close>; both may throw.\<close>

definition try_load :: "(exn + string option) \<Rightarrow> (string \<Rightarrow> exn + json) \<Rightarrow> exn + json list" where
  "try_load getItem parse =
     (case getItem of
        Inl e \<Rightarrow> Inl e
      | Inr None \<Rightarrow> Inr []
      | Inr (Some raw) \<Rightarrow>
          if raw = [] then Inr []
          else
            (case parse raw of
               Inl e \<Rightarrow> Inl e
             | Inr parsed \<Rightarrow> if \<not> is_array parsed then Inr [] else
                 (case parsed of JArray items \<Rightarrow> Inr items | _ \<Rightarrow> Inr [])))"

text \<open>\<open>has_window\<close> is \<^verbatim>\<open>typeof window !== 'undefined'\<close>; the \<^verbatim>\<open>catch\<close> turns every
  exception into the empty list.\<close>

definition loadAssessments :: "bool \<Rightarrow> (exn + string option) \<Rightarrow> (string \<Rightarrow> exn + json) \<Rightarrow> json list" where
  "loadAssessments has_window getItem parse =
     (if \<not> has_window then []
      else (case try_load getItem parse of Inl e \<Rightarrow> [] | Inr r \<Rightarrow> r))"

subsection \<open>Example registries\<close>

definition abc_categories :: "category list" where
  "abc_categories =
     [\<lparr>c_id = ''a'', c_label = ''A'', c_description = []\<rparr>,
      \<lparr>c_id = ''b'', c_label = ''B'', c_description = []\<rparr>,
      \<lparr>c_id = ''c'', c_label = ''C'', c_description = []\<rparr>]"

definition abc_scores :: "string \<rightharpoonup> int" where
  "abc_scores = [''A'' \<mapsto> 2, ''B'' \<mapsto> 4, ''C'' \<mapsto> 6]"

text \<open>Twenty categories, three of them rated 1 and the others 0: the mean is 0.15.\<close>

definition twenty_labels :: "string list" where
  "twenty_labels = map (\<lambda>c. [c]) ''ABCDEFGHIJKLMNOPQRST''"

definition twenty_categories :: "category list" where
  "twenty_categories = map (\<lambda>l. \<lparr>c_id = l, c_label = l, c_description = []\<rparr>) twenty_labels"

definition twenty_scores :: "string \<rightharpoonup> int" where
  "twenty_scores = map_of (zip twenty_labels ([1, 1, 1] @ replicate 17 0))"

text \<open>A state of the page in which the score store has an entry, of the label \<open>A-B\<close>,
  that belongs to no category of the registry.\<close>

definition orphan_state :: state where
  "orphan_state =
     foldl (ui_op ascii_platform) initial_state
       [AddCategory ''A B'' [] 0, AddCategory ''A-B'' [] 0, SetScore ''A-B'' 0,
        RemoveCategory ''health'', RemoveCategory ''career'', RemoveCategory ''relationships'',
        RemoveCategory ''finance'', RemoveCategory ''growth'', RemoveCategory ''a-b'']"

section \<open>Properties\<close>

subsection \<open>Ranking\<close>

lemma get_number: "is_number (get sc l) \<longleftrightarrow> l \<in> dom sc"
  by (auto simp: get_def inherited_def split: option.splits)

lemma active_dom: "active cats sc = filter (\<lambda>c. c_label c \<in> dom sc) cats"
  by (simp add: active_def get_number)

lemma active_score: "c \<in> set (active cats sc) \<Longrightarrow> sc (c_label c) = Some (score sc c)"
  by (auto simp: active_dom score_def get_def nullish_def)

lemma mset_insert_by: "mset (insert_by cmp x ys) = add_mset x (mset ys)"
  by (induction ys) auto

lemma mset_sort_by: "mset (sort_by cmp xs) = mset xs"
  by (induction xs) (auto simp: sort_by_def mset_insert_by)

lemma set_insert_by: "set (insert_by cmp x ys) = insert x (set ys)"
  by (induction ys) auto

lemma sorted_insert_by:
  "sorted (map f ys) \<Longrightarrow> sorted (map f (insert_by (\<lambda>a b. f a - f b) x ys))"
  for f :: "'a \<Rightarrow> int"
  by (induction ys) (auto simp: set_insert_by)

lemma sorted_sort_by: "sorted (map f (sort_by (\<lambda>a b. f a - f b) xs))"
  for f :: "'a \<Rightarrow> int"
  by (induction xs) (auto simp: sort_by_def sorted_insert_by)

lemma filter_insert_by:
  "filter (\<lambda>c. f c = k) (insert_by (\<lambda>a b. f a - f b) x ys) =
     (if f x = k then x # filter (\<lambda>c. f c = k) ys else filter (\<lambda>c. f c = k) ys)"
  for f :: "'a \<Rightarrow> int"
  by (induction ys) auto

lemma filter_sort_by:
  "filter (\<lambda>c. f c = k) (sort_by (\<lambda>a b. f a - f b) xs) = filter (\<lambda>c. f c = k) xs"
  for f :: "'a \<Rightarrow> int"
  by (induction xs) (auto simp: sort_by_def filter_insert_by)

lemma length_sort_by: "length (sort_by cmp xs) = length xs"
  using mset_sort_by [of cmp xs] by (metis size_mset)

text \<open>
  Claim C1. The insight engine keeps the categories that have a numeric score, ranks them
  ascending by score with equal scores left in registry order (for every score \<open>k\<close> the
  categories of score \<open>k\<close> appear in the ranking in the order of the registry), and
  takes the first three, or all when there are fewer, as the priority set from which the
  highlights and actions are produced in that order. For the scores A:5, B:5, C:3, D:5
  in registry order A, B, C, D the priority order is C, A, B.
\<close>

theorem priority_ranking:
  "active cats sc = filter (\<lambda>c. c_label c \<in> dom sc) cats
   \<and> sorted (map (score sc) (lowestSorted cats sc))
   \<and> mset (lowestSorted cats sc) = mset (active cats sc)
   \<and> (\<forall>k. filter (\<lambda>c. score sc c = k) (lowestSorted cats sc)
            = filter (\<lambda>c. score sc c = k) (active cats sc))
   \<and> lowest cats sc = take 3 (lowestSorted cats sc)
   \<and> length (lowest cats sc) = min 3 (length (active cats sc))
   \<and> highlights (generateInsights cats sc) = map (highlight sc) (lowest cats sc)
   \<and> actions (generateInsights cats sc)
       = map (\<lambda>cat. suggestForCategory (c_id cat) (c_label cat)) (lowest cats sc)
   \<and> map c_label
        (lowest
          [\<lparr>c_id = ''a'', c_label = ''A'', c_description = ''''\<rparr>,
           \<lparr>c_id = ''b'', c_label = ''B'', c_description = ''''\<rparr>,
           \<lparr>c_id = ''c'', c_label = ''C'', c_description = ''''\<rparr>,
           \<lparr>c_id = ''d'', c_label = ''D'', c_description = ''''\<rparr>]
          [''A'' \<mapsto> 5, ''B'' \<mapsto> 5, ''C'' \<mapsto> 3, ''D'' \<mapsto> 5])
       = [''C'', ''A'', ''B'']"
proof (intro conjI allI)
  show "active cats sc = filter (\<lambda>c. c_label c \<in> dom sc) cats"
    by (rule active_dom)
  show "sorted (map (score sc) (lowestSorted cats sc))"
    unfolding lowestSorted_def by (rule sorted_sort_by)
  show "mset (lowestSorted cats sc) = mset (active cats sc)"
    unfolding lowestSorted_def by (rule mset_sort_by)
  show "filter (\<lambda>c. score sc c = k) (lowestSorted cats sc)
          = filter (\<lambda>c. score sc c = k) (active cats sc)" for k
    unfolding lowestSorted_def by (rule filter_sort_by)
  show "lowest cats sc = take 3 (lowestSorted cats sc)"
    by (simp add: lowest_def)
  show "length (lowest cats sc) = min 3 (length (active cats sc))"
    by (simp add: lowest_def lowestSorted_def length_sort_by)
  have empty: "active cats sc = [] \<Longrightarrow> lowest cats sc = []"
    by (simp add: lowest_def lowestSorted_def sort_by_def)
  show "highlights (generateInsights cats sc) = map (highlight sc) (lowest cats sc)"
    by (simp add: generateInsights_def Let_def empty)
  show "actions (generateInsights cats sc)
          = map (\<lambda>cat. suggestForCategory (c_id cat) (c_label cat)) (lowest cats sc)"
    by (simp add: generateInsights_def Let_def empty)
  show "map c_label
        (lowest
          [\<lparr>c_id = ''a'', c_label = ''A'', c_description = ''''\<rparr>,
           \<lparr>c_id = ''b'', c_label = ''B'', c_description = ''''\<rparr>,
           \<lparr>c_id = ''c'', c_label = ''C'', c_description = ''''\<rparr>,
           \<lparr>c_id = ''d'', c_label = ''D'', c_description = ''''\<rparr>]
          [''A'' \<mapsto> 5, ''B'' \<mapsto> 5, ''C'' \<mapsto> 3, ''D'' \<mapsto> 5])
       = [''C'', ''A'', ''B'']"
    by (simp add: lowest_def lowestSorted_def active_def sort_by_def score_def get_def
        nullish_def)
qed

subsection \<open>The chart data\<close>

lemma nullish_get_js:
  "l \<notin> set Object_prototype_names \<Longrightarrow>
     nullish (get_js obj l) d = (case obj l of Some v \<Rightarrow> v | None \<Rightarrow> Val d)"
  by (simp add: nullish_def get_js_def inherited_def split: option.splits)

lemma nullish_get:
  "l \<notin> set Object_prototype_names \<Longrightarrow>
     nullish (get obj l) d = (case obj l of Some v \<Rightarrow> Val v | None \<Rightarrow> Val d)"
  by (simp add: nullish_def get_def inherited_def split: option.splits)

lemma nullish_get_js_inherited:
  "l \<in> set Object_prototype_names \<Longrightarrow> obj l = None \<Longrightarrow>
     nullish (get_js obj l) d = ObjectPrototype l"
  by (simp add: nullish_def get_js_def inherited_def)

lemma comparisonValues_plain:
  "set labs \<inter> set Object_prototype_names = {} \<Longrightarrow>
     comparisonValues labs (Some snap) =
       Some (map (\<lambda>l. case s_scores snap l of Some v \<Rightarrow> v | None \<Rightarrow> Val 0) labs)"
proof -
  assume "set labs \<inter> set Object_prototype_names = {}"
  then have "l \<in> set labs \<Longrightarrow> l \<notin> set Object_prototype_names" for l
    by blast
  then show ?thesis
    by (simp add: comparisonValues_def nullish_get_js)
qed

lemma comparisonValues_example:
  "comparisonValues [''A'', ''B'', ''C'']
     (Some \<lparr>s_id = ''s'', s_name = ''n'', s_createdAt = ''t'',
            s_scores = [''A'' \<mapsto> Val 1, ''B'' \<mapsto> Val 2, ''D'' \<mapsto> Val 9]\<rparr>)
   = Some [Val 1, Val 2, Val 0]"
  by (simp add: comparisonValues_def nullish_def get_js_def inherited_def
      Object_prototype_names_def)

text \<open>
  Claim C2. The comparison series reads every current label in the scores of the
  snapshot and defaults to 0; it has one entry per current label, so a label that only
  the snapshot has appears in no series (\<open>comparisonValues_plain\<close>,
  \<open>comparisonValues_example\<close>). The claim that every label absent from the snapshot
  maps to 0 fails for a label that names a member of \<^verbatim>\<open>Object.prototype\<close>: the read
  \<^verbatim>\<open>comparison.scores[label]\<close> finds the inherited member and \<^verbatim>\<open>?? 0\<close> keeps it.
  With the live labels A, B, constructor and the snapshot scores A:1, B:2 the comparison
  series ends in \<^verbatim>\<open>Object.prototype.constructor\<close>, not in 0; the page reaches this
  by saving a snapshot and then adding the category \<open>constructor\<close>.
\<close>

theorem comparison_series_inherited:
  "comparisonValues [''A'', ''B'', ''constructor'']
     (Some \<lparr>s_id = ''s'', s_name = ''n'', s_createdAt = ''t'',
            s_scores = [''A'' \<mapsto> Val 1, ''B'' \<mapsto> Val 2]\<rparr>)
     = Some [Val 1, Val 2, ObjectPrototype ''constructor'']
   \<and> map d_data (datasets (page_chart
         (apply_op pf (handleSaveAssessment initial_state ''id1'' ''date'' ''time'' ''iso'')
            (AddCategory ''constructor'' [] 0))))
     = [replicate 8 (Val 5) @ [Val 5],
        replicate 8 (Val 5) @ [ObjectPrototype ''constructor'']]"
proof (intro conjI)
  show "comparisonValues [''A'', ''B'', ''constructor'']
     (Some \<lparr>s_id = ''s'', s_name = ''n'', s_createdAt = ''t'',
            s_scores = [''A'' \<mapsto> Val 1, ''B'' \<mapsto> Val 2]\<rparr>)
     = Some [Val 1, Val 2, ObjectPrototype ''constructor'']"
    by (simp add: comparisonValues_def nullish_def get_js_def inherited_def
      Object_prototype_names_def)
  show "map d_data (datasets (page_chart
         (apply_op pf (handleSaveAssessment initial_state ''id1'' ''date'' ''time'' ''iso'')
            (AddCategory ''constructor'' [] 0))))
     = [replicate 8 (Val 5) @ [Val 5],
        replicate 8 (Val 5) @ [ObjectPrototype ''constructor'']]"
    by code_simp
qed

subsection \<open>Adding a category\<close>

lemma dropWhile_all: "\<forall>x\<in>set xs. P x \<Longrightarrow> dropWhile P xs = []"
  by (simp add: dropWhile_eq_Nil_conv)

lemma hyphen_not_az09: "\<not> az09 CHR ''-''"
  by (simp add: az09_def)

lemma replace_runs_Nil_iff: "replace_runs s = [] \<longleftrightarrow> s = []"
  by (cases s) auto

lemma replace_runs_run:
  "s \<noteq> [] \<Longrightarrow> \<forall>c\<in>set s. \<not> az09 c \<Longrightarrow> replace_runs s = ''-''"
  by (cases s) (simp_all add: dropWhile_all)

lemma replace_runs_split:
  "az09 c \<Longrightarrow> replace_runs (xs @ c # ys) = replace_runs xs @ c # replace_runs ys"
proof (induction xs rule: replace_runs.induct)
  case 1
  then show ?case by simp
next
  case (2 x xs)
  show ?case
  proof (cases "az09 x")
    case True
    with 2 show ?thesis by simp
  next
    case False
    show ?thesis
    proof (cases "\<forall>d\<in>set xs. \<not> az09 d")
      case True
      then have "dropWhile (\<lambda>d. \<not> az09 d) (xs @ c # ys) = c # ys"
        and "dropWhile (\<lambda>d. \<not> az09 d) xs = []"
        using \<open>az09 c\<close> by (simp_all add: dropWhile_append dropWhile_all)
      with True False \<open>az09 c\<close> show ?thesis by (simp add: dropWhile_all)
    next
      case some: False
      then have "dropWhile (\<lambda>d. \<not> az09 d) (xs @ c # ys)
          = dropWhile (\<lambda>d. \<not> az09 d) xs @ c # ys"
        by (auto simp: dropWhile_append)
      with False 2 show ?thesis by simp
    qed
  qed
qed

lemma filter_dropWhile_not: "filter P (dropWhile (\<lambda>x. \<not> P x) xs) = filter P xs"
  by (induction xs) auto

lemma replace_runs_keeps: "filter az09 (replace_runs s) = filter az09 s"
  by (induction s rule: replace_runs.induct) (simp_all add: filter_dropWhile_not hyphen_not_az09)

lemma replace_runs_chars: "set (replace_runs s) \<subseteq> {c. az09 c} \<union> {CHR ''-''}"
  by (induction s rule: replace_runs.induct) auto

lemma handleAddCategory_noop:
  "trim pf (customLabel st) = []
     \<or> (\<exists>c\<in>set (categories st).
           toLowerCase pf (c_label c) = toLowerCase pf (trim pf (customLabel st)))
   \<Longrightarrow> handleAddCategory pf st now = st"
  by (auto simp: handleAddCategory_def Let_def list_ex_iff)

lemma handleAddCategory_adds:
  "trim pf (customLabel st) \<noteq> [] \<Longrightarrow>
   \<forall>c\<in>set (categories st).
      toLowerCase pf (c_label c) \<noteq> toLowerCase pf (trim pf (customLabel st)) \<Longrightarrow>
   handleAddCategory pf st now =
     st\<lparr>categories := categories st @
          [\<lparr>c_id = (if replace_runs (toLowerCase pf (trim pf (customLabel st))) = []
                   then ''custom-'' @ show_int now
                   else replace_runs (toLowerCase pf (trim pf (customLabel st)))),
            c_label = trim pf (customLabel st),
            c_description =
              (if trim pf (customDescription st) = []
               then ''A custom area of life that matters to you.''
               else trim pf (customDescription st))\<rparr>],
        scores := (scores st)(trim pf (customLabel st) \<mapsto> 5),
        customLabel := [], customDescription := []\<rparr>"
  by (auto simp: handleAddCategory_def Let_def list_ex_iff)

lemma added_id_never_empty:
  "ascii s \<Longrightarrow> s \<noteq> [] \<Longrightarrow> replace_runs (toLowerCase pf s) \<noteq> []"
  by (simp add: replace_runs_Nil_iff toLowerCase_def)

text \<open>
  Claim C3 as stated gives the id \<open>side-projects\<close> for the label \<open>Side Projects!!\<close>.
  It fails: the trailing run \<open>!!\<close> becomes a hyphen too, and the id is
  \<open>side-projects-\<close>.
\<close>

theorem add_side_projects_counterexample:
  "map c_id (categories (apply_op ascii_platform initial_state (AddCategory ''Side Projects!!'' [] 0)))
     = map c_id DEFAULT_CATEGORIES @ [''side-projects-'']
   \<and> ''side-projects-'' \<noteq> ''side-projects''"
  by code_simp

text \<open>
  Claim C3, amended. Trimming and lower-casing are those of the platform \<open>pf\<close>
  (written out for ASCII strings, the platform's own for any other string), and the
  statement holds for every platform. \<open>handleAddCategory\<close> returns the state unchanged
  when the trimmed label is empty or equals, in lower case, the lower-cased label of a
  category of the registry. Otherwise it appends the category with the trimmed label,
  whose id is the lower-cased label with every run of characters outside \<^verbatim>\<open>[a-z0-9]\<close>
  replaced by one hyphen (the time-based id \<^verbatim>\<open>custom-<now>\<close> when that is empty), and
  sets the score of the new label to 5. The replacement is fixed by three equations: the
  empty string stays empty, a non-empty run of characters outside the class becomes one
  hyphen, and a character of the class splits the string into two parts replaced
  independently. Adding \<open>Side Projects!!\<close> yields the id \<open>side-projects-\<close>.
\<close>

theorem add_category:
  "(trim pf (customLabel st) = []
      \<or> (\<exists>c\<in>set (categories st).
            toLowerCase pf (c_label c) = toLowerCase pf (trim pf (customLabel st)))
     \<longrightarrow> handleAddCategory pf st now = st)
   \<and> (trim pf (customLabel st) \<noteq> []
      \<and> (\<forall>c\<in>set (categories st).
            toLowerCase pf (c_label c) \<noteq> toLowerCase pf (trim pf (customLabel st)))
     \<longrightarrow> categories (handleAddCategory pf st now) = categories st @
          [\<lparr>c_id = (if replace_runs (toLowerCase pf (trim pf (customLabel st))) = []
                   then ''custom-'' @ show_int now
                   else replace_runs (toLowerCase pf (trim pf (customLabel st)))),
            c_label = trim pf (customLabel st),
            c_description =
              (if trim pf (customDescription st) = []
               then ''A custom area of life that matters to you.''
               else trim pf (customDescription st))\<rparr>]
       \<and> scores (handleAddCategory pf st now) = (scores st)(trim pf (customLabel st) \<mapsto> 5))
   \<and> replace_runs [] = []
   \<and> (s \<noteq> [] \<and> (\<forall>c\<in>set s. \<not> az09 c) \<longrightarrow> replace_runs s = ''-'')
   \<and> (az09 c \<longrightarrow> replace_runs (xs @ c # ys) = replace_runs xs @ c # replace_runs ys)
   \<and> (ascii s \<longrightarrow>
        trim pf s = rev (dropWhile is_space (rev (dropWhile is_space s)))
        \<and> toLowerCase pf s = map lower_char s)
   \<and> map c_id (categories (apply_op pf initial_state (AddCategory ''Side Projects!!'' [] 0)))
       = map c_id DEFAULT_CATEGORIES @ [''side-projects-'']"
proof (intro conjI impI)
  show "handleAddCategory pf st now = st"
    if "trim pf (customLabel st) = []
      \<or> (\<exists>c\<in>set (categories st).
            toLowerCase pf (c_label c) = toLowerCase pf (trim pf (customLabel st)))"
    using that by (rule handleAddCategory_noop)
  assume new: "trim pf (customLabel st) \<noteq> []
      \<and> (\<forall>c\<in>set (categories st).
            toLowerCase pf (c_label c) \<noteq> toLowerCase pf (trim pf (customLabel st)))"
  then show "categories (handleAddCategory pf st now) = categories st @
          [\<lparr>c_id = (if replace_runs (toLowerCase pf (trim pf (customLabel st))) = []
                   then ''custom-'' @ show_int now
                   else replace_runs (toLowerCase pf (trim pf (customLabel st)))),
            c_label = trim pf (customLabel st),
            c_description =
              (if trim pf (customDescription st) = []
               then ''A custom area of life that matters to you.''
               else trim pf (customDescription st))\<rparr>]"
    by (simp add: handleAddCategory_adds)
  from new show "scores (handleAddCategory pf st now) = (scores st)(trim pf (customLabel st) \<mapsto> 5)"
    by (simp add: handleAddCategory_adds)
next
  show "replace_runs [] = []"
    by simp
  show "replace_runs s = ''-''" if "s \<noteq> [] \<and> (\<forall>c\<in>set s. \<not> az09 c)"
    using that by (simp add: replace_runs_run)
  show "replace_runs (xs @ c # ys) = replace_runs xs @ c # replace_runs ys" if "az09 c"
    using that by (rule replace_runs_split)
  show "trim pf s = rev (dropWhile is_space (rev (dropWhile is_space s)))" if "ascii s"
    using that by (simp add: trim_def)
  show "toLowerCase pf s = map lower_char s" if "ascii s"
    using that by (simp add: toLowerCase_def)
  show "map c_id (categories (apply_op pf initial_state (AddCategory ''Side Projects!!'' [] 0)))
       = map c_id DEFAULT_CATEGORIES @ [''side-projects-'']"
    by code_simp
qed

theorem add_category_witness:
  "handleAddCategory ascii_platform (initial_state\<lparr>customLabel := '' finances  ''\<rparr>) 0
     = initial_state\<lparr>customLabel := '' finances  ''\<rparr>
   \<and> categories (handleAddCategory ascii_platform (initial_state\<lparr>customLabel := ''Side Projects!!''\<rparr>) 0)
     = DEFAULT_CATEGORIES @
         [\<lparr>c_id = ''side-projects-'', c_label = ''Side Projects!!'',
            c_description = ''A custom area of life that matters to you.''\<rparr>]
   \<and> scores (handleAddCategory ascii_platform (initial_state\<lparr>customLabel := ''Side Projects!!''\<rparr>) 0)
        ''Side Projects!!'' = Some 5
   \<and> replace_runs '' & '' = ''-''
   \<and> replace_runs (''a!'' @ CHR ''b'' # ''?c'') = replace_runs ''a!'' @ CHR ''b'' # replace_runs ''?c''
   \<and> trim ascii_platform '' & '' = ''&''
   \<and> toLowerCase ascii_platform '' & '' = '' & ''"
proof (intro conjI)
  let ?dup = "initial_state\<lparr>customLabel := '' finances  ''\<rparr>"
  let ?new = "initial_state\<lparr>customLabel := ''Side Projects!!''\<rparr>"
  note dup = add_category [of ascii_platform ?dup 0 "'' & ''" "CHR ''b''" "''a!''" "''?c''"]
  note new = add_category [of ascii_platform ?new 0 "'' & ''" "CHR ''b''" "''a!''" "''?c''"]
  have "toLowerCase ascii_platform ''Finances''
      = toLowerCase ascii_platform (trim ascii_platform '' finances  '')"
    by code_simp
  then have h1: "trim ascii_platform (customLabel ?dup) = []
      \<or> (\<exists>c\<in>set (categories ?dup).
            toLowerCase ascii_platform (c_label c)
              = toLowerCase ascii_platform (trim ascii_platform (customLabel ?dup)))"
    by (simp add: initial_state_def DEFAULT_CATEGORIES_def)
  have h2: "trim ascii_platform (customLabel ?new) \<noteq> []
      \<and> (\<forall>c\<in>set (categories ?new).
            toLowerCase ascii_platform (c_label c)
              \<noteq> toLowerCase ascii_platform (trim ascii_platform (customLabel ?new)))"
    by code_simp
  have h3: "'' & '' \<noteq> [] \<and> (\<forall>c\<in>set '' & ''. \<not> az09 c)"
    by code_simp
  have h4: "az09 CHR ''b''"
    by code_simp
  have h5: "ascii '' & ''"
    by code_simp
  have e1: "trim ascii_platform ''Side Projects!!'' = ''Side Projects!!''"
    by code_simp
  have e2: "replace_runs (toLowerCase ascii_platform ''Side Projects!!'') = ''side-projects-''"
    by code_simp
  have e3: "trim ascii_platform (customDescription ?new) = []"
    by code_simp
  have e4: "categories ?new = DEFAULT_CATEGORIES"
    by (simp add: initial_state_def)
  have e5: "rev (dropWhile is_space (rev (dropWhile is_space '' & ''))) = ''&''"
    by code_simp
  have e6: "map lower_char '' & '' = '' & ''"
    by code_simp
  show "handleAddCategory ascii_platform ?dup 0 = ?dup"
    by (rule mp [OF conjunct1 [OF dup] h1])
  have added: "categories (handleAddCategory ascii_platform ?new 0) = categories ?new @
          [\<lparr>c_id = (if replace_runs (toLowerCase ascii_platform
                          (trim ascii_platform (customLabel ?new))) = []
                   then ''custom-'' @ show_int 0
                   else replace_runs (toLowerCase ascii_platform
                          (trim ascii_platform (customLabel ?new)))),
            c_label = trim ascii_platform (customLabel ?new),
            c_description =
              (if trim ascii_platform (customDescription ?new) = []
               then ''A custom area of life that matters to you.''
               else trim ascii_platform (customDescription ?new))\<rparr>]
       \<and> scores (handleAddCategory ascii_platform ?new 0)
           = (scores ?new)(trim ascii_platform (customLabel ?new) \<mapsto> 5)"
    by (rule mp [OF conjunct1 [OF conjunct2 [OF new]] h2])
  from conjunct1 [OF added]
  show "categories (handleAddCategory ascii_platform ?new 0)
     = DEFAULT_CATEGORIES @
         [\<lparr>c_id = ''side-projects-'', c_label = ''Side Projects!!'',
            c_description = ''A custom area of life that matters to you.''\<rparr>]"
    unfolding e3 e4 by (simp add: e1 e2)
  from conjunct2 [OF added]
  show "scores (handleAddCategory ascii_platform ?new 0) ''Side Projects!!'' = Some 5"
    by (simp add: e1)
  show "replace_runs '' & '' = ''-''"
    by (rule mp [OF conjunct1 [OF conjunct2 [OF conjunct2 [OF conjunct2 [OF new]]]] h3])
  show "replace_runs (''a!'' @ CHR ''b'' # ''?c'')
      = replace_runs ''a!'' @ CHR ''b'' # replace_runs ''?c''"
    by (rule mp [OF conjunct1 [OF conjunct2 [OF conjunct2 [OF conjunct2 [OF conjunct2 [OF new]]]]] h4])
  have both: "trim ascii_platform '' & '' = rev (dropWhile is_space (rev (dropWhile is_space '' & '')))
        \<and> toLowerCase ascii_platform '' & '' = map lower_char '' & ''"
    by (rule mp [OF conjunct1 [OF conjunct2 [OF conjunct2 [OF conjunct2 [OF conjunct2
          [OF conjunct2 [OF new]]]]]] h5])
  from conjunct1 [OF both] show "trim ascii_platform '' & '' = ''&''"
    unfolding e5 .
  from conjunct2 [OF both] show "toLowerCase ascii_platform '' & '' = '' & ''"
    unfolding e6 .
qed

subsection \<open>Snapshots are immutable\<close>

text \<open>
  The claim is about sharing: a snapshot must not change when the live scores or the
  live registry change afterwards. It is proved on the store of objects, where a
  snapshot holds the addresses of its scores object and of its array of categories, and
  where \<^verbatim>\<open>delete copy[...]\<close> writes a cell in place. Three facts carry the proof: every
  handler keeps the content of every cell allocated before it ran (\<open>keeps\<close>); every
  address that the state reaches is allocated (\<open>allocated\<close>); and no handler but the
  save writes the history. The store read as values (\<open>view\<close>) is the state of the
  handlers on values, event by event (\<open>view_run\<close>).
\<close>

lemma keeps_refl: "keeps m m"
  by (simp add: keeps_def)

lemma keeps_trans: "keeps m1 m2 \<Longrightarrow> keeps m2 m3 \<Longrightarrow> keeps m1 m3"
  by (auto simp: keeps_def)

lemma keeps_handleScoreChange: "keeps m (handleScoreChange_m m label v)"
  by (simp add: keeps_def handleScoreChange_m_def new_scores_def)

lemma keeps_handleAddCategory: "keeps m (handleAddCategory_m pf m now)"
  by (simp add: keeps_def handleAddCategory_m_def new_scores_def new_array_def
      new_category_def Let_def)

lemma keeps_handleRemoveCategory: "keeps m (handleRemoveCategory_m m ident)"
  by (simp add: keeps_def handleRemoveCategory_m_def new_scores_def new_array_def
      delete_key_def split: option.split)

lemma keeps_handleSaveAssessment:
  "keeps m (handleSaveAssessment_m m newId date time isoTime)"
  by (simp add: keeps_def handleSaveAssessment_m_def new_scores_def new_array_def)

lemma keeps_apply_op: "keeps m (apply_op_m pf m op)"
proof (cases op)
  case (AddCategory label descr now)
  have "keeps (m\<lparr>m_customLabel := label, m_customDescription := descr\<rparr>)
      (handleAddCategory_m pf (m\<lparr>m_customLabel := label, m_customDescription := descr\<rparr>) now)"
    by (rule keeps_handleAddCategory)
  with AddCategory show ?thesis
    by (simp add: keeps_def)
qed (simp_all add: keeps_handleScoreChange keeps_handleRemoveCategory)

lemma keeps_step: "keeps m (step_m pf m ev)"
  by (cases ev) (simp_all add: keeps_apply_op keeps_handleSaveAssessment)

lemma keeps_foldl: "keeps m (foldl (step_m pf) m evs)"
proof (induction evs arbitrary: m)
  case Nil
  show ?case by (simp add: keeps_refl)
next
  case (Cons ev evs)
  have "keeps m (step_m pf m ev)"
    by (rule keeps_step)
  moreover have "keeps (step_m pf m ev) (foldl (step_m pf) (step_m pf m ev) evs)"
    by (rule Cons.IH)
  ultimately show ?case
    by (simp add: keeps_trans)
qed

lemma history_apply_op: "m_assessments (apply_op_m pf m op) = m_assessments m"
  by (cases op)
    (simp_all add: handleScoreChange_m_def handleAddCategory_m_def handleRemoveCategory_m_def
      new_scores_def new_array_def new_category_def delete_key_def Let_def split: option.split)


lemma history_handleAddCategory:
  "m_assessments (handleAddCategory_m pf m now) = m_assessments m"
  by (simp add: handleAddCategory_m_def new_scores_def new_array_def new_category_def Let_def)

lemma allocated_initial: "allocated initial_memory"
  by (simp add: allocated_def initial_memory_def)

lemma allocated_keeps:
  assumes "allocated m" and "keeps m m'"
    and "m_assessments m' = m_assessments m"
    and "categoriesRef m' < unused m'" and "scoresRef m' < unused m'"
    and "list_all (\<lambda>a. a < unused m') (arrays m' (categoriesRef m'))"
  shows "allocated m'"
proof -
  have "r_scores r < unused m' \<and> r_categories r < unused m'
        \<and> list_all (\<lambda>a. a < unused m') (arrays m' (r_categories r))"
    if "r \<in> set (m_assessments m)" for r
  proof -
    from assms(1) that have r: "r_scores r < unused m" "r_categories r < unused m"
      "list_all (\<lambda>a. a < unused m) (arrays m (r_categories r))"
      by (auto simp: allocated_def list_all_iff)
    from assms(2) r(2) have "arrays m' (r_categories r) = arrays m (r_categories r)"
      by (simp add: keeps_def)
    with r assms(2) show ?thesis
      by (auto simp: keeps_def list_all_iff)
  qed
  with assms(3-6) show ?thesis
    by (simp add: allocated_def list_all_iff)
qed

lemma allocated_handleScoreChange:
  "allocated m \<Longrightarrow> allocated (handleScoreChange_m m label v)"
proof (rule allocated_keeps)
  assume a: "allocated m"
  show "keeps m (handleScoreChange_m m label v)"
    by (rule keeps_handleScoreChange)
  from a show "list_all (\<lambda>a. a < unused (handleScoreChange_m m label v))
      (arrays (handleScoreChange_m m label v) (categoriesRef (handleScoreChange_m m label v)))"
    by (auto simp: allocated_def handleScoreChange_m_def new_scores_def list_all_iff)
  from a show "categoriesRef (handleScoreChange_m m label v) < unused (handleScoreChange_m m label v)"
    by (simp add: allocated_def handleScoreChange_m_def new_scores_def)
qed (simp_all add: handleScoreChange_m_def new_scores_def)

lemma allocated_handleRemoveCategory:
  "allocated m \<Longrightarrow> allocated (handleRemoveCategory_m m ident)"
proof (rule allocated_keeps)
  assume a: "allocated m"
  show "keeps m (handleRemoveCategory_m m ident)"
    by (rule keeps_handleRemoveCategory)
  from a show "list_all (\<lambda>a. a < unused (handleRemoveCategory_m m ident))
      (arrays (handleRemoveCategory_m m ident) (categoriesRef (handleRemoveCategory_m m ident)))"
    by (auto simp: allocated_def handleRemoveCategory_m_def new_scores_def new_array_def
        delete_key_def list_all_iff split: option.split)
qed (simp_all add: handleRemoveCategory_m_def new_scores_def new_array_def delete_key_def
      split: option.split)

lemma allocated_handleAddCategory:
  "allocated m \<Longrightarrow> allocated (handleAddCategory_m pf m now)"
proof (rule allocated_keeps)
  assume a: "allocated m"
  show "keeps m (handleAddCategory_m pf m now)"
    by (rule keeps_handleAddCategory)
  from a show "list_all (\<lambda>a. a < unused (handleAddCategory_m pf m now))
      (arrays (handleAddCategory_m pf m now) (categoriesRef (handleAddCategory_m pf m now)))"
    by (auto simp: allocated_def handleAddCategory_m_def new_scores_def new_array_def
        new_category_def Let_def list_all_iff)
  from a show "categoriesRef (handleAddCategory_m pf m now) < unused (handleAddCategory_m pf m now)"
    by (simp add: allocated_def handleAddCategory_m_def new_scores_def new_array_def
        new_category_def Let_def)
  from a show "scoresRef (handleAddCategory_m pf m now) < unused (handleAddCategory_m pf m now)"
    by (simp add: allocated_def handleAddCategory_m_def new_scores_def new_array_def
        new_category_def Let_def)
qed (simp_all add: history_handleAddCategory)

lemma allocated_handleSaveAssessment:
  assumes "allocated m"
  shows "allocated (handleSaveAssessment_m m newId date time isoTime)"
proof -
  let ?m' = "handleSaveAssessment_m m newId date time isoTime"
  have k: "keeps m ?m'"
    by (rule keeps_handleSaveAssessment)
  have old: "r_scores r < unused ?m' \<and> r_categories r < unused ?m'
        \<and> list_all (\<lambda>a. a < unused ?m') (arrays ?m' (r_categories r))"
    if "r \<in> set (m_assessments m)" for r
  proof -
    from assms that have r: "r_scores r < unused m" "r_categories r < unused m"
      "list_all (\<lambda>a. a < unused m) (arrays m (r_categories r))"
      by (auto simp: allocated_def list_all_iff)
    from k r(2) have "arrays ?m' (r_categories r) = arrays m (r_categories r)"
      by (simp add: keeps_def)
    with r k show ?thesis
      by (auto simp: keeps_def list_all_iff)
  qed
  from assms have live: "categoriesRef m < unused m" "scoresRef m < unused m"
    "list_all (\<lambda>a. a < unused m) (arrays m (categoriesRef m))"
    by (simp_all add: allocated_def)
  from live old show ?thesis
    by (auto simp: allocated_def handleSaveAssessment_m_def new_scores_def new_array_def
        list_all_iff)
qed

lemma allocated_apply_op: "allocated m \<Longrightarrow> allocated (apply_op_m pf m op)"
proof (cases op)
  case (AddCategory label descr now)
  assume "allocated m"
  then have "allocated (m\<lparr>m_customLabel := label, m_customDescription := descr\<rparr>)"
    by (simp add: allocated_def)
  then have "allocated (handleAddCategory_m pf (m\<lparr>m_customLabel := label, m_customDescription := descr\<rparr>) now)"
    by (rule allocated_handleAddCategory)
  with AddCategory show ?thesis by simp
qed (simp_all add: allocated_handleScoreChange allocated_handleRemoveCategory)

lemma allocated_step: "allocated m \<Longrightarrow> allocated (step_m pf m ev)"
  by (cases ev) (simp_all add: allocated_apply_op allocated_handleSaveAssessment)

lemma allocated_foldl: "allocated m \<Longrightarrow> allocated (foldl (step_m pf) m evs)"
  by (induction evs arbitrary: m) (simp_all add: allocated_step)


lemma snapshot_of_keeps:
  assumes "keeps m m'" and "r_scores r < unused m" and "r_categories r < unused m"
    and "list_all (\<lambda>a. a < unused m) (arrays m (r_categories r))"
  shows "snapshot_of m' r = snapshot_of m r"
proof -
  from assms(1,2) have "score_objects m' (r_scores r) = score_objects m (r_scores r)"
    by (simp add: keeps_def)
  moreover from assms(1,3) have "arrays m' (r_categories r) = arrays m (r_categories r)"
    by (simp add: keeps_def)
  moreover from assms(1,4)
  have "map (category_objects m') (arrays m (r_categories r))
      = map (category_objects m) (arrays m (r_categories r))"
    by (simp add: keeps_def list_all_iff)
  ultimately show ?thesis
    by (simp add: snapshot_of_def)
qed

lemma history_keeps:
  assumes "allocated m" and "keeps m m'"
  shows "map (snapshot_of m') (m_assessments m) = map (snapshot_of m) (m_assessments m)"
proof (rule map_cong [OF refl])
  fix r assume "r \<in> set (m_assessments m)"
  with assms(1) have "r_scores r < unused m" "r_categories r < unused m"
    "list_all (\<lambda>a. a < unused m) (arrays m (r_categories r))"
    by (auto simp: allocated_def list_all_iff)
  with assms(2) show "snapshot_of m' r = snapshot_of m r"
    by (rule snapshot_of_keeps)
qed

lemma live_categories_keeps:
  assumes "allocated m" and "keeps m m'"
  shows "map (category_objects m') (arrays m (categoriesRef m)) = categories_of m"
  using assms by (simp add: allocated_def keeps_def categories_of_def list_all_iff)

lemma view_handleScoreChange:
  assumes "allocated m"
  shows "view (handleScoreChange_m m label v) = handleScoreChange (view m) label v"
proof -
  let ?m' = "handleScoreChange_m m label v"
  have k: "keeps m ?m'"
    by (rule keeps_handleScoreChange)
  have h: "m_assessments ?m' = m_assessments m"
    by (simp add: handleScoreChange_m_def new_scores_def)
  from assms have "arrays ?m' (categoriesRef ?m') = arrays m (categoriesRef m)"
    by (simp add: handleScoreChange_m_def new_scores_def)
  then have c: "categories_of ?m' = categories_of m"
    using live_categories_keeps [OF assms k] by (simp add: categories_of_def)
  have s: "scores_of ?m' = (scores_of m)(label \<mapsto> v)"
    by (simp add: scores_of_def handleScoreChange_m_def new_scores_def)
  have a: "map (snapshot_of ?m') (m_assessments ?m') = map (snapshot_of m) (m_assessments m)"
    unfolding h by (rule history_keeps [OF assms k])
  show ?thesis
    unfolding view_def handleScoreChange_def c s a
    by (simp add: handleScoreChange_m_def new_scores_def)
qed

lemma handleSaveAssessment_m_eq:
  "handleSaveAssessment_m m newId date time isoTime =
     m\<lparr>score_objects := (score_objects m)(unused m := score_objects m (scoresRef m)),
       arrays := (arrays m)(Suc (unused m) := arrays m (categoriesRef m)),
       unused := Suc (Suc (unused m)),
       m_assessments :=
         \<lparr>r_id = newId, r_name = ''Assessment '' @ date @ '' '' @ time,
           r_createdAt = isoTime, r_scores = unused m, r_categories = Suc (unused m)\<rparr>
         # m_assessments m,
       m_selectedComparisonId := Some newId, m_isSaving := False\<rparr>"
  by (simp add: handleSaveAssessment_m_def new_scores_def new_array_def)

lemma saved_snapshot:
  assumes "allocated m"
    and "m' = m\<lparr>score_objects := (score_objects m)(unused m := score_objects m (scoresRef m)),
       arrays := (arrays m)(Suc (unused m) := arrays m (categoriesRef m)),
       unused := Suc (Suc (unused m)),
       m_assessments := r # m_assessments m,
       m_selectedComparisonId := sel, m_isSaving := False\<rparr>"
    and "r = \<lparr>r_id = i, r_name = nm, r_createdAt = ts, r_scores = unused m,
       r_categories = Suc (unused m)\<rparr>"
  shows "snapshot_of m' r
      = \<lparr>a_id = i, a_name = nm, a_createdAt = ts, a_scores = scores_of m,
         a_categories = categories_of m\<rparr>"
    and "view m' = (view m)\<lparr>assessments := snapshot_of m' r # assessments (view m),
        selectedComparisonId := sel, isSaving := False\<rparr>"
proof -
  from assms(1) have live: "categoriesRef m < unused m" "scoresRef m < unused m"
    "\<forall>a\<in>set (arrays m (categoriesRef m)). a < unused m"
    by (simp_all add: allocated_def list_all_iff)
  have k: "keeps m m'"
    by (simp add: keeps_def assms(2))
  from live have cats: "map (category_objects m') (arrays m (categoriesRef m)) = categories_of m"
    by (simp add: assms(2) categories_of_def)
  then show snap: "snapshot_of m' r
      = \<lparr>a_id = i, a_name = nm, a_createdAt = ts, a_scores = scores_of m,
         a_categories = categories_of m\<rparr>"
    by (simp add: snapshot_of_def assms(3)) (simp add: assms(2) scores_of_def)
  from live cats have c: "categories_of m' = categories_of m"
    by (simp add: categories_of_def assms(2))
  from live have s: "scores_of m' = scores_of m"
    by (simp add: scores_of_def assms(2))
  have a: "map (snapshot_of m') (m_assessments m) = map (snapshot_of m) (m_assessments m)"
    by (rule history_keeps [OF assms(1) k])
  have h: "m_assessments m' = r # m_assessments m"
    by (simp add: assms(2))
  show "view m' = (view m)\<lparr>assessments := snapshot_of m' r # assessments (view m),
        selectedComparisonId := sel, isSaving := False\<rparr>"
    unfolding view_def c s h by (simp add: a) (simp add: assms(2))
qed

lemma view_handleSaveAssessment:
  assumes "allocated m"
  shows "view (handleSaveAssessment_m m newId date time isoTime)
      = handleSaveAssessment (view m) newId date time isoTime"
proof -
  note e = handleSaveAssessment_m_eq [of m newId date time isoTime]
  note s = saved_snapshot [OF assms e refl]
  have "handleSaveAssessment (view m) newId date time isoTime
      = (view m)\<lparr>assessments :=
           \<lparr>a_id = newId, a_name = ''Assessment '' @ date @ '' '' @ time,
             a_createdAt = isoTime, a_scores = scores_of m, a_categories = categories_of m\<rparr>
           # assessments (view m),
         selectedComparisonId := Some newId, isSaving := False\<rparr>"
    by (simp add: handleSaveAssessment_def Let_def) (simp add: view_def)
  with s show ?thesis
    by (simp only:)
qed


lemma find_map_eq: "find P (map f xs) = map_option f (find (\<lambda>x. P (f x)) xs)"
  by (induction xs) simp_all

lemma view_handleRemoveCategory:
  assumes "allocated m"
  shows "view (handleRemoveCategory_m m ident) = handleRemoveCategory (view m) ident"
proof -
  let ?m' = "handleRemoveCategory_m m ident"
  let ?arr = "arrays m (categoriesRef m)"
  have k: "keeps m ?m'"
    by (rule keeps_handleRemoveCategory)
  have h: "m_assessments ?m' = m_assessments m"
    by (simp add: handleRemoveCategory_m_def new_scores_def new_array_def delete_key_def
        split: option.split)
  have objs: "category_objects ?m' = category_objects m"
    by (simp add: handleRemoveCategory_m_def new_scores_def new_array_def delete_key_def
        split: option.split)
  have "arrays ?m' (categoriesRef ?m') = filter (\<lambda>a. c_id (category_objects m a) \<noteq> ident) ?arr"
    by (simp add: handleRemoveCategory_m_def new_scores_def new_array_def delete_key_def
        split: option.split)
  then have c: "categories_of ?m' = filter (\<lambda>c. c_id c \<noteq> ident) (categories_of m)"
    by (simp add: categories_of_def objs filter_map comp_def)
  have s: "scores_of ?m'
      = (case find (\<lambda>c. c_id c = ident) (categories_of m) of
           Some cat \<Rightarrow> (scores_of m)(c_label cat := None)
         | None \<Rightarrow> scores_of m)"
    by (simp add: scores_of_def categories_of_def find_map_eq handleRemoveCategory_m_def
        new_scores_def new_array_def delete_key_def split: option.split)
  have a: "map (snapshot_of ?m') (m_assessments ?m') = map (snapshot_of m) (m_assessments m)"
    unfolding h by (rule history_keeps [OF assms k])
  have rest: "m_customLabel ?m' = m_customLabel m" "m_customDescription ?m' = m_customDescription m"
    "m_selectedComparisonId ?m' = m_selectedComparisonId m" "m_isSaving ?m' = m_isSaving m"
    by (simp_all add: handleRemoveCategory_m_def new_scores_def new_array_def delete_key_def
        split: option.split)
  show ?thesis
    unfolding view_def [of ?m'] c s a rest
    by (simp add: handleRemoveCategory_def view_def split: option.split)
qed

lemma view_handleAddCategory:
  assumes "allocated m"
  shows "view (handleAddCategory_m pf m now) = handleAddCategory pf (view m) now"
proof -
  let ?m' = "handleAddCategory_m pf m now"
  let ?arr = "arrays m (categoriesRef m)"
  let ?trimmed = "trim pf (m_customLabel m)"
  let ?dup = "list_ex (\<lambda>c. toLowerCase pf (c_label c) = toLowerCase pf ?trimmed) (categories_of m)"
  have dup: "list_ex (\<lambda>a. toLowerCase pf (c_label (category_objects m a)) = toLowerCase pf ?trimmed) ?arr
      = ?dup"
    by (simp add: categories_of_def list_ex_iff)
  show ?thesis
  proof (cases "?trimmed = [] \<or> ?dup")
    case True
    then have "?m' = m"
      by (auto simp: handleAddCategory_m_def Let_def dup)
    moreover from True have "handleAddCategory pf (view m) now = view m"
      by (auto simp: handleAddCategory_def Let_def view_def)
    ultimately show ?thesis by simp
  next
    case False
    let ?ident = "replace_runs (toLowerCase pf ?trimmed)"
    let ?newCat = "\<lparr>c_id = (if ?ident = [] then ''custom-'' @ show_int now else ?ident),
        c_label = ?trimmed,
        c_description =
          (if trim pf (m_customDescription m) = []
           then ''A custom area of life that matters to you.''
           else trim pf (m_customDescription m))\<rparr>"
    from False have e: "?m' =
        m\<lparr>category_objects := (category_objects m)(unused m := ?newCat),
          arrays := (arrays m)(Suc (unused m) := ?arr @ [unused m]),
          score_objects := (score_objects m)(Suc (Suc (unused m)) := (score_objects m (scoresRef m))(?trimmed \<mapsto> 5)),
          unused := Suc (Suc (Suc (unused m))),
          categoriesRef := Suc (unused m), scoresRef := Suc (Suc (unused m)),
          m_customLabel := [], m_customDescription := []\<rparr>"
      by (simp add: handleAddCategory_m_def Let_def dup new_scores_def new_array_def
          new_category_def)
    have k: "keeps m ?m'"
      by (rule keeps_handleAddCategory)
    from assms have live: "\<forall>a\<in>set ?arr. a < unused m"
      by (simp add: allocated_def list_all_iff)
    then have "unused m \<notin> set ?arr"
      by auto
    then have "map ((category_objects m)(unused m := ?newCat)) ?arr = map (category_objects m) ?arr"
      by (intro map_cong) auto
    then have c: "categories_of ?m' = categories_of m @ [?newCat]"
      unfolding e by (simp add: categories_of_def)
    have s: "scores_of ?m' = (scores_of m)(?trimmed \<mapsto> 5)"
      unfolding e by (simp add: scores_of_def)
    have h: "m_assessments ?m' = m_assessments m"
      by (rule history_handleAddCategory)
    have a: "map (snapshot_of ?m') (m_assessments ?m') = map (snapshot_of m) (m_assessments m)"
      unfolding h by (rule history_keeps [OF assms k])
    have rest: "m_customLabel ?m' = []" "m_customDescription ?m' = []"
      "m_selectedComparisonId ?m' = m_selectedComparisonId m" "m_isSaving ?m' = m_isSaving m"
      unfolding e by simp_all
    from False have "handleAddCategory pf (view m) now
        = (view m)\<lparr>categories := categories_of m @ [?newCat],
            scores := (scores_of m)(?trimmed \<mapsto> 5),
            customLabel := [], customDescription := []\<rparr>"
      by (simp add: handleAddCategory_def Let_def view_def)
    then show ?thesis
      unfolding view_def [of ?m'] c s a rest by (simp add: view_def)
  qed
qed

lemma view_apply_op:
  "allocated m \<Longrightarrow> view (apply_op_m pf m op) = apply_op pf (view m) op"
proof (cases op)
  case (AddCategory label descr now)
  assume "allocated m"
  then have "allocated (m\<lparr>m_customLabel := label, m_customDescription := descr\<rparr>)"
    by (simp add: allocated_def)
  then have "view (handleAddCategory_m pf (m\<lparr>m_customLabel := label, m_customDescription := descr\<rparr>) now)
      = handleAddCategory pf (view (m\<lparr>m_customLabel := label, m_customDescription := descr\<rparr>)) now"
    by (rule view_handleAddCategory)
  moreover have "view (m\<lparr>m_customLabel := label, m_customDescription := descr\<rparr>)
      = (view m)\<lparr>customLabel := label, customDescription := descr\<rparr>"
    by (simp add: view_def categories_of_def scores_of_def snapshot_of_def)
  ultimately show ?thesis
    using AddCategory by simp
qed (simp_all add: view_handleScoreChange view_handleRemoveCategory)

lemma view_initial: "view initial_memory = initial_state"
  by (simp add: view_def initial_memory_def initial_state_def categories_of_def scores_of_def
      DEFAULT_CATEGORIES_def)


lemma keeps_ops: "keeps m (foldl (apply_op_m pf) m ops)"
proof (induction ops arbitrary: m)
  case Nil
  show ?case by (simp add: keeps_refl)
next
  case (Cons op ops)
  have "keeps m (apply_op_m pf m op)"
    by (rule keeps_apply_op)
  moreover have "keeps (apply_op_m pf m op) (foldl (apply_op_m pf) (apply_op_m pf m op) ops)"
    by (rule Cons.IH)
  ultimately show ?case
    by (simp add: keeps_trans)
qed

lemma history_ops: "m_assessments (foldl (apply_op_m pf) m ops) = m_assessments m"
  by (induction ops arbitrary: m) (simp_all add: history_apply_op)

lemma allocated_ops: "allocated m \<Longrightarrow> allocated (foldl (apply_op_m pf) m ops)"
  by (induction ops arbitrary: m) (simp_all add: allocated_apply_op)

lemma view_ops:
  "allocated m \<Longrightarrow> view (foldl (apply_op_m pf) m ops) = foldl (apply_op pf) (view m) ops"
  by (induction ops arbitrary: m) (simp_all add: allocated_apply_op view_apply_op)

lemma view_step: "allocated m \<Longrightarrow> view (step_m pf m ev) = step pf (view m) ev"
  by (cases ev) (simp_all add: view_apply_op view_handleSaveAssessment)

lemma view_run:
  "view (foldl (step_m pf) initial_memory evs) = foldl (step pf) initial_state evs"
proof -
  have "allocated m \<Longrightarrow> view (foldl (step_m pf) m evs) = foldl (step pf) (view m) evs" for m
    by (induction evs arbitrary: m) (simp_all add: allocated_step view_step)
  from this [OF allocated_initial] show ?thesis
    by (simp add: view_initial)
qed

text \<open>
  Claim C4. Let \<open>m\<close> be the store after any sequence of events (score changes,
  additions, removals and saves) from the initial store, let a save in \<open>m\<close> create the
  snapshot \<open>r\<close>, and let any sequence of score changes, category additions and category
  removals follow. Then the history is still \<open>r\<close> before the history of \<open>m\<close>; the
  scores object that \<open>r\<close> refers to holds the live scores of the moment of the save,
  and its array of categories holds the live registry of that moment; read as a value,
  the snapshot is the record of the id, name and time of the save with those scores and
  categories. In the initial store, a save followed by setting Finances to 9 leaves 5 in
  the snapshot and 9 in the live scores, and a save followed by removing the category
  \<open>health\<close> leaves the score of its label in the snapshot and none in the live scores.
\<close>

theorem snapshot_immutable:
  "(let m = foldl (step_m pf) initial_memory evs;
        saved = handleSaveAssessment_m m newId date time isoTime;
        r = hd (m_assessments saved);
        after = foldl (apply_op_m pf) saved ops
    in m_assessments after = r # m_assessments m
       \<and> score_objects after (r_scores r) = scores_of m
       \<and> map (category_objects after) (arrays after (r_categories r)) = categories_of m
       \<and> snapshot_of after r
           = \<lparr>a_id = newId, a_name = ''Assessment '' @ date @ '' '' @ time,
              a_createdAt = isoTime, a_scores = scores_of m, a_categories = categories_of m\<rparr>
       \<and> assessments (view after) = snapshot_of after r # assessments (view m))
   \<and> scores_of (apply_op_m pf
          (handleSaveAssessment_m initial_memory ''id1'' ''date'' ''time'' ''iso'')
          (SetScore ''Finances'' 9)) ''Finances'' = Some 9
   \<and> map (\<lambda>a. a_scores a ''Finances'')
        (assessments (view (apply_op_m pf
          (handleSaveAssessment_m initial_memory ''id1'' ''date'' ''time'' ''iso'')
          (SetScore ''Finances'' 9)))) = [Some 5]
   \<and> scores_of (apply_op_m pf
          (handleSaveAssessment_m initial_memory ''id1'' ''date'' ''time'' ''iso'')
          (RemoveCategory ''health'')) ''Health & Energy'' = None
   \<and> map (\<lambda>a. a_scores a ''Health & Energy'')
        (assessments (view (apply_op_m pf
          (handleSaveAssessment_m initial_memory ''id1'' ''date'' ''time'' ''iso'')
          (RemoveCategory ''health'')))) = [Some 5]"
proof (intro conjI)
  define m where "m = foldl (step_m pf) initial_memory evs"
  define saved where "saved = handleSaveAssessment_m m newId date time isoTime"
  define r where "r = \<lparr>r_id = newId, r_name = ''Assessment '' @ date @ '' '' @ time,
      r_createdAt = isoTime, r_scores = unused m, r_categories = Suc (unused m)\<rparr>"
  define after where "after = foldl (apply_op_m pf) saved ops"
  have m: "allocated m"
    unfolding m_def by (rule allocated_foldl [OF allocated_initial])
  have e: "saved = m\<lparr>score_objects := (score_objects m)(unused m := score_objects m (scoresRef m)),
       arrays := (arrays m)(Suc (unused m) := arrays m (categoriesRef m)),
       unused := Suc (Suc (unused m)),
       m_assessments := r # m_assessments m,
       m_selectedComparisonId := Some newId, m_isSaving := False\<rparr>"
    unfolding saved_def r_def by (rule handleSaveAssessment_m_eq)
  have hd: "hd (m_assessments saved) = r"
    by (simp add: e)
  have at_save: "snapshot_of saved r
      = \<lparr>a_id = newId, a_name = ''Assessment '' @ date @ '' '' @ time,
         a_createdAt = isoTime, a_scores = scores_of m, a_categories = categories_of m\<rparr>"
    by (rule saved_snapshot(1) [OF m e r_def])
  have saved: "allocated saved"
    unfolding saved_def using m by (rule allocated_handleSaveAssessment)
  have k: "keeps saved after"
    unfolding after_def by (rule keeps_ops)
  have h: "m_assessments after = r # m_assessments m"
    unfolding after_def by (simp add: history_ops e)
  from saved have r: "r_scores r < unused saved" "r_categories r < unused saved"
    "list_all (\<lambda>a. a < unused saved) (arrays saved (r_categories r))"
    by (simp_all add: allocated_def e)
  with k have same: "snapshot_of after r = snapshot_of saved r"
    by (rule snapshot_of_keeps)
  have old: "map (snapshot_of after) (m_assessments m) = map (snapshot_of m) (m_assessments m)"
  proof -
    have "keeps m saved"
      unfolding saved_def by (rule keeps_handleSaveAssessment)
    then have "keeps m after"
      using k by (rule keeps_trans)
    with m show ?thesis
      by (rule history_keeps)
  qed
  have result: "m_assessments after = r # m_assessments m
       \<and> score_objects after (r_scores r) = scores_of m
       \<and> map (category_objects after) (arrays after (r_categories r)) = categories_of m
       \<and> snapshot_of after r
           = \<lparr>a_id = newId, a_name = ''Assessment '' @ date @ '' '' @ time,
              a_createdAt = isoTime, a_scores = scores_of m, a_categories = categories_of m\<rparr>
       \<and> assessments (view after) = snapshot_of after r # assessments (view m)"
  proof (intro conjI)
    show "m_assessments after = r # m_assessments m"
      by (rule h)
    show snap: "snapshot_of after r
           = \<lparr>a_id = newId, a_name = ''Assessment '' @ date @ '' '' @ time,
              a_createdAt = isoTime, a_scores = scores_of m, a_categories = categories_of m\<rparr>"
      unfolding same by (rule at_save)
    from snap have "a_scores (snapshot_of after r) = scores_of m"
      by (simp only: StoredAssessment.simps)
    then show "score_objects after (r_scores r) = scores_of m"
      by (simp add: snapshot_of_def)
    from snap have "a_categories (snapshot_of after r) = categories_of m"
      by (simp only: StoredAssessment.simps)
    then show "map (category_objects after) (arrays after (r_categories r)) = categories_of m"
      by (simp add: snapshot_of_def)
    show "assessments (view after) = snapshot_of after r # assessments (view m)"
      by (simp add: view_def h old)
  qed
  then show "let m = foldl (step_m pf) initial_memory evs;
        saved = handleSaveAssessment_m m newId date time isoTime;
        r = hd (m_assessments saved);
        after = foldl (apply_op_m pf) saved ops
    in m_assessments after = r # m_assessments m
       \<and> score_objects after (r_scores r) = scores_of m
       \<and> map (category_objects after) (arrays after (r_categories r)) = categories_of m
       \<and> snapshot_of after r
           = \<lparr>a_id = newId, a_name = ''Assessment '' @ date @ '' '' @ time,
              a_createdAt = isoTime, a_scores = scores_of m, a_categories = categories_of m\<rparr>
       \<and> assessments (view after) = snapshot_of after r # assessments (view m)"
    unfolding Let_def m_def [symmetric] saved_def [symmetric] hd after_def [symmetric] .
next
  show "scores_of (apply_op_m pf
          (handleSaveAssessment_m initial_memory ''id1'' ''date'' ''time'' ''iso'')
          (SetScore ''Finances'' 9)) ''Finances'' = Some 9"
    by (simp add: scores_of_def handleScoreChange_m_def new_scores_def)
  show "map (\<lambda>a. a_scores a ''Finances'')
        (assessments (view (apply_op_m pf
          (handleSaveAssessment_m initial_memory ''id1'' ''date'' ''time'' ''iso'')
          (SetScore ''Finances'' 9)))) = [Some 5]"
    by (simp add: view_def snapshot_of_def handleScoreChange_m_def handleSaveAssessment_m_eq
        new_scores_def initial_memory_def initial_state_def DEFAULT_CATEGORIES_def)
  show "scores_of (apply_op_m pf
          (handleSaveAssessment_m initial_memory ''id1'' ''date'' ''time'' ''iso'')
          (RemoveCategory ''health'')) ''Health & Energy'' = None"
    by code_simp
  show "map (\<lambda>a. a_scores a ''Health & Energy'')
        (assessments (view (apply_op_m pf
          (handleSaveAssessment_m initial_memory ''id1'' ''date'' ''time'' ''iso'')
          (RemoveCategory ''health'')))) = [Some 5]"
    by code_simp
qed

subsection \<open>The average in the summary\<close>

lemma scale_lower: "0 < s \<Longrightarrow> 2 ^ 52 * n \<le> s * 2 ^ scale s n t"
proof (induction s n t rule: scale.induct)
  case (1 s n t)
  show ?case
  proof (cases "s * 2 ^ t < 2 ^ 52 * n")
    case True
    with 1 show ?thesis
      by (simp add: scale.simps [of s n t])
  next
    case False
    then show ?thesis
      by (simp add: scale.simps [of s n t])
  qed
qed

lemma round_half_even_error:
  assumes "0 < b"
  shows "\<bar>2 * int (round_half_even a b) * int b - 2 * int a\<bar> \<le> int b"
proof -
  define q r where "q = a div b" and "r = a mod b"
  have a: "int a = int q * int b + int r"
    unfolding q_def r_def by (metis div_mult_mod_eq of_nat_add of_nat_mult)
  have r: "int r < int b"
    using assms by (simp add: r_def)
  have up: "2 * int (q + 1) * int b = 2 * (int q * int b) + 2 * int b"
    by (simp add: algebra_simps)
  have down: "2 * int q * int b = 2 * (int q * int b)"
    by simp
  have at_q: "\<bar>2 * int q * int b - 2 * int a\<bar> \<le> int b" if "2 * r \<le> b"
    using that a down by linarith
  have at_q1: "\<bar>2 * int (q + 1) * int b - 2 * int a\<bar> \<le> int b" if "b \<le> 2 * r"
    using that a r up by linarith
  consider "2 * r < b" | "b < 2 * r" | "2 * r = b"
    by linarith
  then show ?thesis
  proof cases
    case 1
    then have "round_half_even a b = q"
      by (simp add: round_half_even_def Let_def q_def r_def)
    with 1 at_q show ?thesis by simp
  next
    case 2
    then have "round_half_even a b = q + 1"
      by (simp add: round_half_even_def Let_def q_def r_def)
    with 2 at_q1 show ?thesis by simp
  next
    case 3
    then have "round_half_even a b = q \<or> round_half_even a b = q + 1"
      by (simp add: round_half_even_def Let_def q_def r_def)
    then show ?thesis
    proof
      assume "round_half_even a b = q"
      with 3 at_q show ?thesis by simp
    next
      assume "round_half_even a b = q + 1"
      with 3 at_q1 show ?thesis by simp
    qed
  qed
qed

lemma tenths_bounds:
  "2 * 2 ^ t * int (tenths (m, t)) \<le> 20 * int m + 2 ^ t
   \<and> 20 * int m + 2 ^ t < 2 * 2 ^ t * (int (tenths (m, t)) + 1)"
proof -
  define d :: nat where "d = 2 ^ Suc t"
  define x :: nat where "x = 20 * m + 2 ^ t"
  have d: "0 < d" by (simp add: d_def)
  have k: "tenths (m, t) = x div d"
    by (simp add: tenths_def x_def d_def)
  have "d * (x div d) \<le> x"
    by simp
  moreover have "x < d * (x div d + 1)"
    using d by (metis Suc_eq_plus1 dividend_less_times_div mult_Suc_right)
  ultimately have "int d * int (x div d) \<le> int x" and "int x < int d * (int (x div d) + 1)"
    by (metis of_nat_le_iff of_nat_mult, metis of_nat_less_iff of_nat_mult of_nat_add of_nat_1)
  then show ?thesis
    by (simp add: k d_def x_def)
qed

lemma tenth_arith:
  fixes P D n E1 E2 :: int
  assumes n: "0 < n" and P: "10 * n < P" and E1: "\<bar>E1\<bar> \<le> n"
    and lo: "- P \<le> E2" and hi: "E2 < P" and eq: "P * D = n * E2 - 10 * E1"
  shows "\<bar>D\<bar> \<le> n"
proof (rule ccontr)
  assume "\<not> \<bar>D\<bar> \<le> n"
  then consider "n + 1 \<le> D" | "D \<le> - n - 1"
    by linarith
  then show False
  proof cases
    case 1
    have "n * E2 < n * P"
      using n hi by (rule mult_strict_left_mono [rotated])
    with E1 eq have ub: "P * D < n * P + 10 * n"
      by linarith
    have "P * (n + 1) \<le> P * D"
      using 1 n P by (intro mult_left_mono) linarith+
    then have "n * P + P \<le> P * D"
      by (simp add: algebra_simps)
    with ub P show False
      by linarith
  next
    case 2
    have "n * (- P) \<le> n * E2"
      using lo n by (intro mult_left_mono) linarith+
    then have "- (n * P) \<le> n * E2"
      by simp
    with E1 eq have lb: "- (n * P) - 10 * n \<le> P * D"
      by linarith
    have "P * D \<le> P * (- n - 1)"
      using 2 n P by (intro mult_left_mono) linarith+
    then have "P * D \<le> - (n * P) - P"
      by (simp add: algebra_simps)
    with lb P show False
      by linarith
  qed
qed

lemma nearest_tenth:
  assumes n: "0 < n" and s: "10 * s < 2 ^ 52"
  shows "\<bar>20 * int s - 2 * int (tenths (divide64 s n)) * int n\<bar> \<le> int n"
proof (cases "s = 0")
  case True
  then have "divide64 s n = (0, 0)"
    using n by (simp add: divide64_def scale.simps [of 0 n 0] round_half_even_def)
  then show ?thesis
    using True by (simp add: tenths_def)
next
  case False
  define t where "t = scale s n 0"
  define m where "m = round_half_even (s * 2 ^ t) n"
  define k where "k = tenths (m, t)"
  define P :: int where "P = 2 ^ t"
  have dk: "tenths (divide64 s n) = k"
    by (simp add: divide64_def Let_def k_def m_def t_def)
  from False have "2 ^ 52 * n \<le> s * 2 ^ t"
    unfolding t_def by (intro scale_lower) simp
  then have "int (2 ^ 52 * n) \<le> int (s * 2 ^ t)"
    by (simp only: of_nat_le_iff)
  then have low: "2 ^ 52 * int n \<le> int s * P"
    by (simp add: P_def)
  have big: "10 * int n < P"
  proof (rule ccontr)
    assume "\<not> 10 * int n < P"
    then have "P \<le> 10 * int n" by simp
    then have "int s * P \<le> int s * (10 * int n)"
      by (intro mult_left_mono) simp_all
    moreover have "int (10 * s) < int (2 ^ 52)"
      using s by (simp only: of_nat_less_iff)
    then have "10 * int s < 2 ^ 52"
      by simp
    then have "(10 * int s) * int n < 2 ^ 52 * int n"
      using n by (intro mult_strict_right_mono) simp_all
    ultimately show False
      using low by (simp add: algebra_simps)
  qed
  have "\<bar>2 * int m * int n - 2 * int (s * 2 ^ t)\<bar> \<le> int n"
    unfolding m_def using n by (rule round_half_even_error)
  then have E1: "\<bar>2 * int m * int n - 2 * (int s * P)\<bar> \<le> int n"
    by (simp add: P_def)
  have "2 * P * int k \<le> 20 * int m + P \<and> 20 * int m + P < 2 * P * (int k + 1)"
    unfolding k_def P_def by (rule tenths_bounds)
  then have lo: "- P \<le> 20 * int m - 2 * int k * P" and hi: "20 * int m - 2 * int k * P < P"
    by (simp_all add: algebra_simps)
  have eq: "P * (20 * int s - 2 * int k * int n)
      = int n * (20 * int m - 2 * int k * P) - 10 * (2 * int m * int n - 2 * (int s * P))"
    by (simp add: algebra_simps)
  have "\<bar>20 * int s - 2 * int k * int n\<bar> \<le> int n"
    using _ big E1 lo hi eq by (rule tenth_arith) (use n in simp)
  then show ?thesis
    by (simp add: dk)
qed


lemma digit_value_digit: "d < 10 \<Longrightarrow> digit_value (digit d) = d"
proof -
  assume "d < 10"
  then have "d \<in> {0, 1, 2, 3, 4, 5, 6, 7, 8, 9}"
    by auto
  then show ?thesis
    by (auto simp: digit_def digit_value_def)
qed

lemma decimal_value_show_nat: "decimal_value (show_nat n) = n"
proof (induction n rule: show_nat.induct)
  case (1 n)
  show ?case
  proof (cases "n < 10")
    case True
    then show ?thesis
      by (simp add: show_nat.simps [of n] decimal_value_def digit_value_digit)
  next
    case False
    with 1 have "decimal_value (show_nat (n div 10)) = n div 10"
      by simp
    moreover have "digit_value (digit (n mod 10)) = n mod 10"
      by (simp add: digit_value_digit)
    ultimately show ?thesis
      using False by (simp add: show_nat.simps [of n] decimal_value_def)
  qed
qed


lemma foldl_plus: "foldl (\<lambda>acc v. acc + v) a xs = a + sum_list xs"
  for a :: int
  by (induction xs arbitrary: a) simp_all

lemma sum_list_bounds:
  fixes f :: "'a \<Rightarrow> int"
  assumes "\<forall>x\<in>set xs. 0 \<le> f x \<and> f x \<le> c"
  shows "0 \<le> sum_list (map f xs) \<and> sum_list (map f xs) \<le> c * int (length xs)"
  using assms by (induction xs) (auto simp: algebra_simps)

lemma summary_active:
  "active cs sc \<noteq> [] \<Longrightarrow>
     summary (generateInsights cs sc)
       = summary_text (sum_list (map (score sc) (active cs sc))) (length (active cs sc))"
  by (simp add: generateInsights_def Let_def foldl_plus)

lemma avg_text_nonneg: "avg_text (int s) n = fixed1 (tenths (divide64 s n))"
  by (simp add: avg_text_def)

lemma avg_text_12_3: "avg_text 12 3 = ''4.0''"
  by (simp add: avg_text_def divide64_def scale.simps round_half_even_def tenths_def
      fixed1_def show_nat.simps digit_def)

lemma mean_ties: "avg_text 1 4 = ''0.3'' \<and> avg_text 3 20 = ''0.1''"
  by (simp add: avg_text_def divide64_def scale.simps round_half_even_def tenths_def
      fixed1_def show_nat.simps digit_def)

lemma half_up_or_tie:
  fixes s n k :: nat
  assumes "0 < n" and "\<bar>20 * int s - 2 * int k * int n\<bar> \<le> int n"
  shows "k = (20 * s + n) div (2 * n)
     \<or> ((20 * s + n) mod (2 * n) = 0 \<and> Suc k = (20 * s + n) div (2 * n))"
proof -
  from assms(2) have "2 * int k * int n \<le> 20 * int s + int n"
    and "20 * int s \<le> 2 * int k * int n + int n"
    by linarith+
  then have "int (2 * n * k) \<le> int (20 * s + n)" and "int (20 * s + n) \<le> int (2 * n * Suc k)"
    by (simp_all add: algebra_simps)
  then have lo: "2 * n * k \<le> 20 * s + n" and hi: "20 * s + n \<le> 2 * n * Suc k"
    by (simp_all only: of_nat_le_iff)
  show ?thesis
  proof (cases "20 * s + n = 2 * n * Suc k")
    case True
    then have "(20 * s + n) mod (2 * n) = 0" and "(20 * s + n) div (2 * n) = Suc k"
      using assms(1) by simp_all
    then show ?thesis by simp
  next
    case False
    with hi have "20 * s + n < 2 * n * Suc k"
      by linarith
    with lo have "(20 * s + n) div (2 * n) = k"
      by (intro div_nat_eqI) (simp_all add: mult.commute)
    then show ?thesis by simp
  qed
qed

lemma rated_sum:
  "map (score sc) (active cs sc)
     = map (\<lambda>c. the (sc (c_label c))) (filter (\<lambda>c. c_label c \<in> dom sc) cs)"
proof -
  have "score sc c = the (sc (c_label c))" if "c \<in> set (active cs sc)" for c
    using active_score [OF that] by simp
  then have "map (score sc) (active cs sc) = map (\<lambda>c. the (sc (c_label c))) (active cs sc)"
    by (intro map_cong) simp_all
  then show ?thesis
    by (simp add: active_dom)
qed

lemma summary_rated:
  assumes "\<exists>c\<in>set cs. c_label c \<in> dom sc"
  shows "summary (generateInsights cs sc)
      = summary_text
          (sum_list (map (\<lambda>c. the (sc (c_label c))) (filter (\<lambda>c. c_label c \<in> dom sc) cs)))
          (length (filter (\<lambda>c. c_label c \<in> dom sc) cs))"
proof -
  from assms have "active cs sc \<noteq> []"
    by (auto simp: active_dom filter_empty_conv)
  then have "summary (generateInsights cs sc)
      = summary_text (sum_list (map (score sc) (active cs sc))) (length (active cs sc))"
    by (rule summary_active)
  then show ?thesis
    by (simp add: rated_sum) (simp add: active_dom)
qed

lemma summary_of_abc:
  "summary (generateInsights abc_categories abc_scores)
   = ''Your average score is 4.0/10 across 3 areas. A balanced wheel is less about perfection and more about feeling steady overall.''"
proof -
  have "\<exists>c\<in>set abc_categories. c_label c \<in> dom abc_scores"
    by (simp add: abc_categories_def abc_scores_def)
  then have "summary (generateInsights abc_categories abc_scores)
      = summary_text
          (sum_list (map (\<lambda>c. the (abc_scores (c_label c)))
             (filter (\<lambda>c. c_label c \<in> dom abc_scores) abc_categories)))
          (length (filter (\<lambda>c. c_label c \<in> dom abc_scores) abc_categories))"
    by (rule summary_rated)
  also have "\<dots> = summary_text 12 3"
    by (simp add: abc_categories_def abc_scores_def numeral_3_eq_3)
  also have "\<dots> = ''Your average score is 4.0/10 across 3 areas. A balanced wheel is less about perfection and more about feeling steady overall.''"
    by (simp add: summary_text_def avg_text_12_3 show_nat.simps digit_def)
  finally show ?thesis .
qed


lemma twenty_rated:
  "list_all (\<lambda>c. twenty_scores (c_label c) \<noteq> None) twenty_categories"
  by code_simp

lemma twenty_active:
  "filter (\<lambda>c. c_label c \<in> dom twenty_scores) twenty_categories = twenty_categories"
  using twenty_rated by (simp add: list_all_iff dom_def)

lemma twenty_sum:
  "sum_list (map (\<lambda>c. the (twenty_scores (c_label c))) twenty_categories) = 3"
  by code_simp

lemma twenty_length:
  "length twenty_categories = 20"
  by code_simp

lemma summary_of_twenty:
  "summary (generateInsights twenty_categories twenty_scores)
   = ''Your average score is 0.1/10 across 20 areas. A balanced wheel is less about perfection and more about feeling steady overall.''"
proof -
  have "twenty_categories \<noteq> []"
    using twenty_length by auto
  then have "hd twenty_categories \<in> set twenty_categories"
    by (rule hd_in_set)
  with twenty_rated have "\<exists>c\<in>set twenty_categories. c_label c \<in> dom twenty_scores"
    by (auto simp: list_all_iff dom_def)
  then have "summary (generateInsights twenty_categories twenty_scores)
      = summary_text
          (sum_list (map (\<lambda>c. the (twenty_scores (c_label c)))
             (filter (\<lambda>c. c_label c \<in> dom twenty_scores) twenty_categories)))
          (length (filter (\<lambda>c. c_label c \<in> dom twenty_scores) twenty_categories))"
    by (rule summary_rated)
  also have "\<dots> = summary_text 3 20"
    unfolding twenty_active twenty_sum twenty_length ..
  also have "\<dots> = ''Your average score is 0.1/10 across 20 areas. A balanced wheel is less about perfection and more about feeling steady overall.''"
    using mean_ties by (simp add: summary_text_def show_nat.simps digit_def)
  finally show ?thesis .
qed

lemma orphan_categories:
  "categories orphan_state =
     [\<lparr>c_id = ''fun'', c_label = ''Fun & Recreation'',
        c_description = ''Play, hobbies, and activities that recharge you.''\<rparr>,
      \<lparr>c_id = ''environment'', c_label = ''Environment'',
        c_description = ''Home, workspace, and surroundings.''\<rparr>,
      \<lparr>c_id = ''spirituality'', c_label = ''Meaning & Spirituality'',
        c_description = ''Purpose, values, and connection to something bigger.''\<rparr>]"
  by code_simp

lemma orphan_scores:
  "map (scores orphan_state)
     [''Fun & Recreation'', ''Environment'', ''Meaning & Spirituality'', ''A-B'']
   = [Some 5, Some 5, Some 5, Some 0]"
  by code_simp

lemma summary_of_orphan:
  "summary (generateInsights (categories orphan_state) (scores orphan_state))
   = ''Your average score is 5.0/10 across 3 areas. A balanced wheel is less about perfection and more about feeling steady overall.''"
proof -
  from orphan_scores have sc: "scores orphan_state ''Fun & Recreation'' = Some 5"
    "scores orphan_state ''Environment'' = Some 5"
    "scores orphan_state ''Meaning & Spirituality'' = Some 5"
    by simp_all
  have "\<exists>c\<in>set (categories orphan_state). c_label c \<in> dom (scores orphan_state)"
    unfolding orphan_categories by (simp add: dom_def sc)
  then have "summary (generateInsights (categories orphan_state) (scores orphan_state))
      = summary_text
          (sum_list (map (\<lambda>c. the (scores orphan_state (c_label c)))
             (filter (\<lambda>c. c_label c \<in> dom (scores orphan_state)) (categories orphan_state))))
          (length (filter (\<lambda>c. c_label c \<in> dom (scores orphan_state)) (categories orphan_state)))"
    by (rule summary_rated)
  also have "\<dots> = summary_text 15 3"
    unfolding orphan_categories by (simp add: dom_def sc numeral_3_eq_3)
  also have "\<dots> = ''Your average score is 5.0/10 across 3 areas. A balanced wheel is less about perfection and more about feeling steady overall.''"
    by (simp add: summary_text_def avg_text_def divide64_def scale.simps round_half_even_def
        tenths_def fixed1_def show_nat.simps digit_def)
  finally show ?thesis .
qed

lemma summary_mean_rated:
  assumes "\<exists>c\<in>set cs. c_label c \<in> dom sc"
    and "\<forall>c\<in>set cs. \<forall>v. sc (c_label c) = Some v \<longrightarrow> 0 \<le> v \<and> v \<le> 10"
    and "length cs < 2 ^ 32"
  shows "let rated = filter (\<lambda>c. c_label c \<in> dom sc) cs;
              n = length rated;
              tot = sum_list (map (\<lambda>c. the (sc (c_label c))) rated);
              k = tenths (divide64 (nat tot) n)
          in summary (generateInsights cs sc)
               = ''Your average score is '' @ show_nat (k div 10) @ ''.'' @ show_nat (k mod 10)
                 @ ''/10 across '' @ show_nat n
                 @ '' areas. A balanced wheel is less about perfection and more about feeling steady overall.''
             \<and> decimal_value (show_nat n) = n
             \<and> decimal_value (show_nat (k div 10)) * 10 + decimal_value (show_nat (k mod 10)) = k
             \<and> \<bar>20 * tot - 2 * int k * int n\<bar> \<le> int n
             \<and> (int k = (20 * tot + int n) div (2 * int n)
                 \<or> ((20 * tot + int n) mod (2 * int n) = 0
                     \<and> int k + 1 = (20 * tot + int n) div (2 * int n)))"
proof -
  define rated where "rated = filter (\<lambda>c. c_label c \<in> dom sc) cs"
  define n where "n = length rated"
  define tot where "tot = sum_list (map (\<lambda>c. the (sc (c_label c))) rated)"
  define s where "s = nat tot"
  define k where "k = tenths (divide64 s n)"
  from assms(1) have "rated \<noteq> []"
    by (auto simp: rated_def filter_empty_conv)
  then have n: "0 < n"
    by (simp add: n_def)
  have "\<forall>c\<in>set rated. 0 \<le> the (sc (c_label c)) \<and> the (sc (c_label c)) \<le> 10"
    using assms(2) by (auto simp: rated_def)
  then have "0 \<le> tot \<and> tot \<le> 10 * int n"
    unfolding tot_def n_def by (rule sum_list_bounds)
  then have tot: "tot = int s" and s10: "s \<le> 10 * n"
    by (simp_all add: s_def) linarith
  have "n \<le> length cs"
    by (simp add: n_def rated_def)
  with assms(3) have "n < 2 ^ 32"
    by simp
  with s10 have "10 * s < 100 * 2 ^ 32"
    by linarith
  also have "\<dots> < (2::nat) ^ 52"
    by simp
  finally have "10 * s < 2 ^ 52" .
  with n have near: "\<bar>20 * int s - 2 * int k * int n\<bar> \<le> int n"
    unfolding k_def by (rule nearest_tenth)
  from half_up_or_tie [OF n near]
  have "int k = int ((20 * s + n) div (2 * n))
     \<or> (int ((20 * s + n) mod (2 * n)) = 0 \<and> int (Suc k) = int ((20 * s + n) div (2 * n)))"
    by auto
  then have tie: "int k = (20 * int s + int n) div (2 * int n)
     \<or> ((20 * int s + int n) mod (2 * int n) = 0
         \<and> int k + 1 = (20 * int s + int n) div (2 * int n))"
    by (simp add: zdiv_int zmod_int add.commute)
  have "avg_text tot n = fixed1 k"
    by (simp add: tot avg_text_nonneg k_def)
  then have printed: "summary (generateInsights cs sc)
      = ''Your average score is '' @ show_nat (k div 10) @ ''.'' @ show_nat (k mod 10)
               @ ''/10 across '' @ show_nat n
               @ '' areas. A balanced wheel is less about perfection and more about feeling steady overall.''"
    using summary_rated [OF assms(1)]
    by (simp add: summary_text_def fixed1_def flip: rated_def n_def tot_def)
  have "summary (generateInsights cs sc)
               = ''Your average score is '' @ show_nat (k div 10) @ ''.'' @ show_nat (k mod 10)
                 @ ''/10 across '' @ show_nat n
                 @ '' areas. A balanced wheel is less about perfection and more about feeling steady overall.''
             \<and> decimal_value (show_nat n) = n
             \<and> decimal_value (show_nat (k div 10)) * 10 + decimal_value (show_nat (k mod 10)) = k
             \<and> \<bar>20 * tot - 2 * int k * int n\<bar> \<le> int n
             \<and> (int k = (20 * tot + int n) div (2 * int n)
                 \<or> ((20 * tot + int n) mod (2 * int n) = 0
                     \<and> int k + 1 = (20 * tot + int n) div (2 * int n)))"
    using printed near tie by (simp add: decimal_value_show_nat tot)
  then show ?thesis
    unfolding Let_def rated_def [symmetric] n_def [symmetric] tot_def [symmetric]
      s_def [symmetric] k_def [symmetric] .
qed

text \<open>
  Claim C5 as stated: for every non-empty score mapping the summary embeds the mean of
  all scores, rounded to one decimal place, and the count of rated categories. It fails
  in three ways.
  \<^item> With an empty registry and the scores \<^verbatim>\<open>{A: 2}\<close> the summary is the placeholder
    sentence, with no mean and no count.
  \<^item> The mean is taken over the categories of the registry that have a score, not over
    all scores. The page reaches \<open>orphan_state\<close> (the labels \<open>A B\<close> and \<open>A-B\<close> share
    the id \<open>a-b\<close>, and removing that id deletes one of the two scores): its score store
    holds 5, 5, 5 for its three categories and 0 for the removed label \<open>A-B\<close>, the mean of
    all scores is 15/4, and the summary says 5.0 across 3 areas.
  \<^item> The quotient is a binary64 number and \<^verbatim>\<open>toFixed(1)\<close> rounds its exact value, so
    an exact tie goes either way: twenty categories with the total 3 have the mean 0.15
    and the summary says 0.1, where rounding half up or half to even gives 0.2.
\<close>

theorem summary_mean_counterexample:
  "summary (generateInsights [] [''A'' \<mapsto> 2]) = placeholder_summary
   \<and> map (scores orphan_state)
        [''Fun & Recreation'', ''Environment'', ''Meaning & Spirituality'', ''A-B'']
      = [Some 5, Some 5, Some 5, Some 0]
   \<and> map c_label (categories orphan_state)
      = [''Fun & Recreation'', ''Environment'', ''Meaning & Spirituality'']
   \<and> summary (generateInsights (categories orphan_state) (scores orphan_state))
      = ''Your average score is 5.0/10 across 3 areas. A balanced wheel is less about perfection and more about feeling steady overall.''
   \<and> sum_list (map (\<lambda>l. the (twenty_scores l)) twenty_labels) = 3
   \<and> length twenty_categories = 20
   \<and> summary (generateInsights twenty_categories twenty_scores)
      = ''Your average score is 0.1/10 across 20 areas. A balanced wheel is less about perfection and more about feeling steady overall.''"
proof (intro conjI)
  show "summary (generateInsights [] [''A'' \<mapsto> 2]) = placeholder_summary"
    by (simp add: generateInsights_def active_def)
  show "map c_label (categories orphan_state)
      = [''Fun & Recreation'', ''Environment'', ''Meaning & Spirituality'']"
    unfolding orphan_categories by simp
  show "sum_list (map (\<lambda>l. the (twenty_scores l)) twenty_labels) = 3"
    by code_simp
qed (rule orphan_scores summary_of_orphan summary_of_twenty twenty_length)+

text \<open>
  Claim C5, amended. The rated categories are the categories of the registry whose label
  has a score; scores of labels outside the registry are not counted. If there is a rated
  category, the scores of the registry's categories are between 0 and 10 and the registry
  has fewer than \<open>2 ^ 32\<close> categories, then the summary is the template with the decimal
  count \<open>n\<close> of the rated categories and the number \<open>k/10\<close> printed with one decimal,
  where \<open>k\<close> is what \<^verbatim>\<open>toFixed(1)\<close> gives for the binary64 quotient of the sum of the
  rated categories' scores by \<open>n\<close>; \<open>k/10\<close> is within 0.05 of the mean of those scores,
  and it is the mean rounded half up to one decimal, except that on an exact tie it may
  be the tenth below (1/4 prints 0.3, 3/20 prints 0.1). If no category of the registry
  has a score, the summary is the placeholder sentence. The rated categories A, B, C with
  scores 2, 4, 6 give 4.0 and 3.
\<close>

theorem summary_mean:
  "((\<exists>c\<in>set cs. c_label c \<in> dom sc)
      \<and> (\<forall>c\<in>set cs. \<forall>v. sc (c_label c) = Some v \<longrightarrow> 0 \<le> v \<and> v \<le> 10)
      \<and> length cs < 2 ^ 32
     \<longrightarrow> (let rated = filter (\<lambda>c. c_label c \<in> dom sc) cs;
              n = length rated;
              tot = sum_list (map (\<lambda>c. the (sc (c_label c))) rated);
              k = tenths (divide64 (nat tot) n)
          in summary (generateInsights cs sc)
               = ''Your average score is '' @ show_nat (k div 10) @ ''.'' @ show_nat (k mod 10)
                 @ ''/10 across '' @ show_nat n
                 @ '' areas. A balanced wheel is less about perfection and more about feeling steady overall.''
             \<and> decimal_value (show_nat n) = n
             \<and> decimal_value (show_nat (k div 10)) * 10 + decimal_value (show_nat (k mod 10)) = k
             \<and> \<bar>20 * tot - 2 * int k * int n\<bar> \<le> int n
             \<and> (int k = (20 * tot + int n) div (2 * int n)
                 \<or> ((20 * tot + int n) mod (2 * int n) = 0
                     \<and> int k + 1 = (20 * tot + int n) div (2 * int n)))))
   \<and> ((\<forall>c\<in>set cs. c_label c \<notin> dom sc)
        \<longrightarrow> summary (generateInsights cs sc) = placeholder_summary)
   \<and> summary (generateInsights abc_categories abc_scores)
       = ''Your average score is 4.0/10 across 3 areas. A balanced wheel is less about perfection and more about feeling steady overall.''
   \<and> avg_text 1 4 = ''0.3'' \<and> avg_text 3 20 = ''0.1''"
proof (intro conjI impI)
  assume "(\<exists>c\<in>set cs. c_label c \<in> dom sc)
      \<and> (\<forall>c\<in>set cs. \<forall>v. sc (c_label c) = Some v \<longrightarrow> 0 \<le> v \<and> v \<le> 10)
      \<and> length cs < 2 ^ 32"
  then have "\<exists>c\<in>set cs. c_label c \<in> dom sc"
    and "\<forall>c\<in>set cs. \<forall>v. sc (c_label c) = Some v \<longrightarrow> 0 \<le> v \<and> v \<le> 10"
    and "length cs < 2 ^ 32"
    by blast+
  then show "let rated = filter (\<lambda>c. c_label c \<in> dom sc) cs;
              n = length rated;
              tot = sum_list (map (\<lambda>c. the (sc (c_label c))) rated);
              k = tenths (divide64 (nat tot) n)
          in summary (generateInsights cs sc)
               = ''Your average score is '' @ show_nat (k div 10) @ ''.'' @ show_nat (k mod 10)
                 @ ''/10 across '' @ show_nat n
                 @ '' areas. A balanced wheel is less about perfection and more about feeling steady overall.''
             \<and> decimal_value (show_nat n) = n
             \<and> decimal_value (show_nat (k div 10)) * 10 + decimal_value (show_nat (k mod 10)) = k
             \<and> \<bar>20 * tot - 2 * int k * int n\<bar> \<le> int n
             \<and> (int k = (20 * tot + int n) div (2 * int n)
                 \<or> ((20 * tot + int n) mod (2 * int n) = 0
                     \<and> int k + 1 = (20 * tot + int n) div (2 * int n)))"
    by (rule summary_mean_rated)
next
  assume "\<forall>c\<in>set cs. c_label c \<notin> dom sc"
  then have "active cs sc = []"
    by (simp add: active_dom filter_empty_conv)
  then show "summary (generateInsights cs sc) = placeholder_summary"
    by (simp add: generateInsights_def)
next
  show "summary (generateInsights abc_categories abc_scores)
       = ''Your average score is 4.0/10 across 3 areas. A balanced wheel is less about perfection and more about feeling steady overall.''"
    by (rule summary_of_abc)
  show "avg_text 1 4 = ''0.3''" and "avg_text 3 20 = ''0.1''"
    using mean_ties by simp_all
qed

theorem summary_mean_witness:
  "(let rated = filter (\<lambda>c. c_label c \<in> dom abc_scores) abc_categories;
              n = length rated;
              tot = sum_list (map (\<lambda>c. the (abc_scores (c_label c))) rated);
              k = tenths (divide64 (nat tot) n)
          in summary (generateInsights abc_categories abc_scores)
               = ''Your average score is '' @ show_nat (k div 10) @ ''.'' @ show_nat (k mod 10)
                 @ ''/10 across '' @ show_nat n
                 @ '' areas. A balanced wheel is less about perfection and more about feeling steady overall.''
             \<and> decimal_value (show_nat n) = n
             \<and> decimal_value (show_nat (k div 10)) * 10 + decimal_value (show_nat (k mod 10)) = k
             \<and> \<bar>20 * tot - 2 * int k * int n\<bar> \<le> int n
             \<and> (int k = (20 * tot + int n) div (2 * int n)
                 \<or> ((20 * tot + int n) mod (2 * int n) = 0
                     \<and> int k + 1 = (20 * tot + int n) div (2 * int n))))
   \<and> summary (generateInsights [] [''A'' \<mapsto> 2]) = placeholder_summary"
proof (rule conjI)
  have h1: "(\<exists>c\<in>set abc_categories. c_label c \<in> dom abc_scores)
      \<and> (\<forall>c\<in>set abc_categories. \<forall>v. abc_scores (c_label c) = Some v \<longrightarrow> 0 \<le> v \<and> v \<le> 10)
      \<and> length abc_categories < 2 ^ 32"
    by (simp add: abc_categories_def abc_scores_def)
  show "let rated = filter (\<lambda>c. c_label c \<in> dom abc_scores) abc_categories;
              n = length rated;
              tot = sum_list (map (\<lambda>c. the (abc_scores (c_label c))) rated);
              k = tenths (divide64 (nat tot) n)
          in summary (generateInsights abc_categories abc_scores)
               = ''Your average score is '' @ show_nat (k div 10) @ ''.'' @ show_nat (k mod 10)
                 @ ''/10 across '' @ show_nat n
                 @ '' areas. A balanced wheel is less about perfection and more about feeling steady overall.''
             \<and> decimal_value (show_nat n) = n
             \<and> decimal_value (show_nat (k div 10)) * 10 + decimal_value (show_nat (k mod 10)) = k
             \<and> \<bar>20 * tot - 2 * int k * int n\<bar> \<le> int n
             \<and> (int k = (20 * tot + int n) div (2 * int n)
                 \<or> ((20 * tot + int n) mod (2 * int n) = 0
                     \<and> int k + 1 = (20 * tot + int n) div (2 * int n)))"
    by (rule mp [OF conjunct1 [OF summary_mean [of abc_categories abc_scores]] h1])
  have h2: "\<forall>c\<in>set []. c_label c \<notin> dom [''A'' \<mapsto> (2::int)]"
    by simp
  show "summary (generateInsights [] [''A'' \<mapsto> 2]) = placeholder_summary"
    by (rule mp [OF conjunct1 [OF conjunct2 [OF summary_mean [of "[]" "[''A'' \<mapsto> 2]"]]] h2])
qed

subsection \<open>Setting a score\<close>

text \<open>
  Claim C6 as stated: a value outside 0..10 is either rejected or clamped. It fails:
  the value 11 is stored as it is.
\<close>

theorem set_score_counterexample:
  "\<not> (scores (handleScoreChange initial_state ''Finances'' 11) = scores initial_state
      \<or> scores (handleScoreChange initial_state ''Finances'' 11) ''Finances''
          = Some (max 0 (min 10 11)))"
proof
  have stored: "scores (handleScoreChange initial_state ''Finances'' 11) ''Finances'' = Some 11"
    by (simp add: handleScoreChange_def)
  have before: "scores initial_state ''Finances'' = Some 5"
    by (simp add: initial_state_def DEFAULT_CATEGORIES_def)
  assume "scores (handleScoreChange initial_state ''Finances'' 11) = scores initial_state
      \<or> scores (handleScoreChange initial_state ''Finances'' 11) ''Finances''
          = Some (max 0 (min 10 11))"
  then show False
  proof
    assume "scores (handleScoreChange initial_state ''Finances'' 11) = scores initial_state"
    then have "scores (handleScoreChange initial_state ''Finances'' 11) ''Finances''
        = scores initial_state ''Finances''"
      by simp
    with stored before show False
      by simp
  next
    assume "scores (handleScoreChange initial_state ''Finances'' 11) ''Finances''
          = Some (max 0 (min 10 11))"
    with stored show False
      by simp
  qed
qed

text \<open>
  Claim C6, amended. \<open>handleScoreChange\<close> has no range policy: for every label and every
  value it stores exactly the given value under the label and changes no other score,
  nor the registry, the history or the comparison pointer.
\<close>

theorem set_score_stores_value:
  "scores (handleScoreChange st label v) k = (if k = label then Some v else scores st k)
   \<and> categories (handleScoreChange st label v) = categories st
   \<and> assessments (handleScoreChange st label v) = assessments st
   \<and> selectedComparisonId (handleScoreChange st label v) = selectedComparisonId st"
  by (simp add: handleScoreChange_def)

subsection \<open>The floor of four categories\<close>

lemma length_filter_distinct:
  "distinct (map f xs) \<Longrightarrow> x \<in> set (map f xs) \<Longrightarrow>
     Suc (length (filter (\<lambda>c. f c \<noteq> x) xs)) = length xs"
proof (induction xs)
  case Nil
  then show ?case by simp
next
  case (Cons a xs)
  show ?case
  proof (cases "f a = x")
    case True
    with Cons.prems have "x \<notin> f ` set xs" by auto
    then have "filter (\<lambda>c. f c \<noteq> x) xs = xs"
      by (auto simp: filter_id_conv)
    with True show ?thesis by simp
  next
    case False
    with Cons show ?thesis by auto
  qed
qed

lemma categories_add_length:
  "length (categories st) \<le> length (categories (handleAddCategory pf st now))"
  by (simp add: handleAddCategory_def Let_def)

text \<open>
  Claim C7 as stated: in a state with exactly 4 categories the remove operation is
  rejected, and no sequence of operations brings the registry below 4. It fails twice.
  \<open>handleRemoveCategory\<close> has no floor: called in a state with 4 categories it leaves 3.
  And through the page, where a removal needs a rendered button: the labels \<open>A B\<close> and
  \<open>A-B\<close> get the same id \<open>a-b\<close>, so with 5 categories left one removal deletes both
  and leaves 3, with the score of \<open>A-B\<close> still in the score store.
\<close>

theorem remove_floor_counterexample:
  "length (categories (handleRemoveCategory
      (foldl (ui_op ascii_platform) initial_state
         [RemoveCategory ''growth'', RemoveCategory ''fun'', RemoveCategory ''environment'',
          RemoveCategory ''spirituality''])
      ''health'')) = 3
   \<and> length (categories (foldl (ui_op ascii_platform) initial_state
         [RemoveCategory ''growth'', RemoveCategory ''fun'', RemoveCategory ''environment'',
          RemoveCategory ''spirituality''])) = 4
   \<and> map c_label (categories (foldl (ui_op ascii_platform) initial_state
        [AddCategory ''A B'' [] 0, AddCategory ''A-B'' [] 0,
         RemoveCategory ''health'', RemoveCategory ''career'', RemoveCategory ''relationships'',
         RemoveCategory ''finance'', RemoveCategory ''growth'', RemoveCategory ''a-b'']))
     = [''Fun & Recreation'', ''Environment'', ''Meaning & Spirituality'']
   \<and> scores (foldl (ui_op ascii_platform) initial_state
        [AddCategory ''A B'' [] 0, AddCategory ''A-B'' [] 0,
         RemoveCategory ''health'', RemoveCategory ''career'', RemoveCategory ''relationships'',
         RemoveCategory ''finance'', RemoveCategory ''growth'', RemoveCategory ''a-b''])
       ''A-B'' = Some 5"
  by code_simp

text \<open>
  Claim C7, amended. The floor is kept by the page: the remove button is rendered only
  while the registry has more than 4 categories, so in a state with at most 4 categories
  a removal through the page changes nothing; \<open>handleRemoveCategory\<close> itself removes
  every category of the given id whenever it is called. When the ids of the registry are
  pairwise distinct, every operation through the page on a registry of at least 4
  categories leaves at least 4.
\<close>

theorem remove_floor:
  "(length (categories st) \<le> 4 \<longrightarrow> ui_op pf st (RemoveCategory ident) = st)
   \<and> categories (handleRemoveCategory st ident) = filter (\<lambda>c. c_id c \<noteq> ident) (categories st)
   \<and> (distinct (map c_id (categories st)) \<and> 4 \<le> length (categories st)
        \<longrightarrow> 4 \<le> length (categories (ui_op pf st op)))"
proof (intro conjI impI)
  show "ui_op pf st (RemoveCategory ident) = st" if "length (categories st) \<le> 4"
    using that by (simp add: remove_offered_def)
  show "categories (handleRemoveCategory st ident) = filter (\<lambda>c. c_id c \<noteq> ident) (categories st)"
    by (simp add: handleRemoveCategory_def)
  show "4 \<le> length (categories (ui_op pf st op))"
    if a: "distinct (map c_id (categories st)) \<and> 4 \<le> length (categories st)"
  proof (cases op)
    case (SetScore l v)
    with a show ?thesis by (simp add: handleScoreChange_def)
  next
    case (AddCategory l d now)
    have "length (categories st)
        \<le> length (categories (handleAddCategory pf (st\<lparr>customLabel := l, customDescription := d\<rparr>) now))"
      using categories_add_length [of "st\<lparr>customLabel := l, customDescription := d\<rparr>" pf now]
      by simp
    with a AddCategory show ?thesis by simp
  next
    case (RemoveCategory i)
    show ?thesis
    proof (cases "remove_offered st i")
      case True
      then have "Suc (length (filter (\<lambda>c. c_id c \<noteq> i) (categories st))) = length (categories st)"
        using a by (intro length_filter_distinct) (simp_all add: remove_offered_def)
      with True RemoveCategory show ?thesis
        by (simp add: remove_offered_def handleRemoveCategory_def)
    next
      case False
      with a RemoveCategory show ?thesis by simp
    qed
  qed
qed

theorem remove_floor_witness:
  "ui_op ascii_platform
     (foldl (ui_op ascii_platform) initial_state
        [RemoveCategory ''growth'', RemoveCategory ''fun'', RemoveCategory ''environment'',
         RemoveCategory ''spirituality''])
     (RemoveCategory ''health'')
   = foldl (ui_op ascii_platform) initial_state
        [RemoveCategory ''growth'', RemoveCategory ''fun'', RemoveCategory ''environment'',
         RemoveCategory ''spirituality'']
   \<and> 4 \<le> length (categories (ui_op ascii_platform initial_state (RemoveCategory ''health'')))"
proof (intro conjI)
  let ?four = "foldl (ui_op ascii_platform) initial_state
        [RemoveCategory ''growth'', RemoveCategory ''fun'', RemoveCategory ''environment'',
         RemoveCategory ''spirituality'']"
  have h1: "length (categories ?four) \<le> 4"
    by code_simp
  have h2: "distinct (map c_id (categories initial_state))
      \<and> 4 \<le> length (categories initial_state)"
    by code_simp
  show "ui_op ascii_platform ?four (RemoveCategory ''health'') = ?four"
    by (rule mp [OF conjunct1 [OF remove_floor [of ?four ascii_platform "''health''"]] h1])
  show "4 \<le> length (categories (ui_op ascii_platform initial_state (RemoveCategory ''health'')))"
    by (rule mp [OF conjunct2 [OF conjunct2 [OF remove_floor [of initial_state ascii_platform "''health''"]]] h2])
qed

subsection \<open>The suggestion table\<close>

lemma suggest_health: "suggestForCategory ''health'' label = Val health_text"
  by (simp add: suggestForCategory_def get_def nullish_def suggestions_def)

lemma dom_suggestions:
  "dom suggestions = {''health'', ''career'', ''relationships'', ''finance'', ''growth'',
     ''fun'', ''environment'', ''spirituality''}"
  by (auto simp: suggestions_def split: if_splits)

lemma suggest_table:
  "suggestions ident = Some text \<Longrightarrow> suggestForCategory ident label = Val text"
  by (simp add: suggestForCategory_def get_def nullish_def)

lemma suggest_fallback:
  "ident \<notin> dom suggestions \<Longrightarrow> ident \<notin> set Object_prototype_names \<Longrightarrow>
     suggestForCategory ident label = Val (fallback_text label)"
  by (auto simp: suggestForCategory_def get_def nullish_def inherited_def split: option.splits)

lemma suggest_custom_creativity:
  "suggestForCategory ''custom-creativity'' ''Creativity'' = Val (fallback_text ''Creativity'')"
  by (simp add: suggestForCategory_def get_def nullish_def suggestions_def inherited_def
      Object_prototype_names_def)

lemma suggest_inherited:
  "ident \<notin> dom suggestions \<Longrightarrow> ident \<in> set Object_prototype_names \<Longrightarrow>
     suggestForCategory ident label = ObjectPrototype ident"
  by (auto simp: suggestForCategory_def get_def nullish_def inherited_def split: option.splits)

text \<open>
  Claim C8. The action for a category is read from the table \<open>suggestions\<close> by the
  category's id; id \<open>health\<close> gives the health text whatever the label
  (\<open>suggest_health\<close>), and \<open>custom-creativity\<close> gives the generic template
  (\<open>suggest_custom_creativity\<close>). The claim that every id without a table entry gives
  the template fails for the ids that name a member of \<^verbatim>\<open>Object.prototype\<close>: the table
  is an object literal, the read \<^verbatim>\<open>suggestions[id]\<close> finds the inherited member, and
  \<^verbatim>\<open>??\<close> keeps it. The id \<open>constructor\<close> has no table entry, is the id that adding
  the label \<open>Constructor\<close> produces, and yields \<^verbatim>\<open>Object.prototype.constructor\<close>
  instead of the template.
\<close>

theorem suggest_constructor:
  "suggestions ''constructor'' = None
   \<and> suggestForCategory ''constructor'' ''Constructor'' = ObjectPrototype ''constructor''
   \<and> suggestForCategory ''constructor'' ''Constructor'' \<noteq> Val (fallback_text ''Constructor'')
   \<and> map c_id (categories (apply_op pf initial_state (AddCategory ''Constructor'' [] 0)))
       = map c_id DEFAULT_CATEGORIES @ [''constructor'']"
proof (intro conjI)
  show "suggestions ''constructor'' = None"
    by (simp add: suggestions_def)
  show "suggestForCategory ''constructor'' ''Constructor'' = ObjectPrototype ''constructor''"
    by (simp add: suggestForCategory_def get_def nullish_def suggestions_def inherited_def
        Object_prototype_names_def)
  then show "suggestForCategory ''constructor'' ''Constructor'' \<noteq> Val (fallback_text ''Constructor'')"
    by simp
  show "map c_id (categories (apply_op pf initial_state (AddCategory ''Constructor'' [] 0)))
       = map c_id DEFAULT_CATEGORIES @ [''constructor'']"
    by code_simp
qed

subsection \<open>Loading the history\<close>

text \<open>
  Claim C9. \<open>loadAssessments\<close> returns a list on every input, and the empty list when
  there is no window, when reading the store throws or finds nothing or the empty
  string, when \<^verbatim>\<open>JSON.parse\<close> throws, and when the parsed value is not an array.
\<close>

theorem load_malformed_is_empty:
  assumes "\<not> has_window \<or> getItem = Inl e \<or> getItem = Inr None
     \<or> (\<exists>raw. getItem = Inr (Some raw)
           \<and> (raw = [] \<or> parse raw = Inl e' \<or> (\<exists>v. parse raw = Inr v \<and> \<not> is_array v)))"
  shows "loadAssessments has_window getItem parse = []"
  using assms
  by (auto simp: loadAssessments_def try_load_def split: sum.splits option.splits)

lemma load_array:
  "raw \<noteq> [] \<Longrightarrow> parse raw = Inr (JArray xs) \<Longrightarrow>
     loadAssessments True (Inr (Some raw)) parse = xs"
  by (simp add: loadAssessments_def try_load_def)

theorem load_malformed_witness:
  "loadAssessments True (Inr (Some (CHR 0x22 # ''not an array'' @ [CHR 0x22])))
     (\<lambda>raw. Inr (JString ''not an array'')) = []"
  by (rule load_malformed_is_empty [where e = SecurityError and e' = SyntaxError]) simp

subsection \<open>Saving a snapshot\<close>

text \<open>
  Claim C10. A save puts the new snapshot, holding the current scores and categories, in
  front of the history and sets the comparison pointer to its id, whatever was selected
  before; looking the pointer up in the history finds the new snapshot, and the
  comparison shown is the new snapshot unless its id is the empty string.
\<close>

theorem save_selects_new_snapshot:
  "selectedComparisonId (handleSaveAssessment st newId date time isoTime) = Some newId
   \<and> assessments (handleSaveAssessment st newId date time isoTime)
       = \<lparr>a_id = newId, a_name = ''Assessment '' @ date @ '' '' @ time,
          a_createdAt = isoTime, a_scores = scores st, a_categories = categories st\<rparr>
         # assessments st
   \<and> find (\<lambda>a. a_id a = newId) (assessments (handleSaveAssessment st newId date time isoTime))
       = Some \<lparr>a_id = newId, a_name = ''Assessment '' @ date @ '' '' @ time,
          a_createdAt = isoTime, a_scores = scores st, a_categories = categories st\<rparr>
   \<and> map_option s_id (comparisonSnapshot (handleSaveAssessment st newId date time isoTime))
       = (if newId = [] then None else Some newId)
   \<and> categories (handleSaveAssessment st newId date time isoTime) = categories st
   \<and> scores (handleSaveAssessment st newId date time isoTime) = scores st"
  by (simp add: handleSaveAssessment_def comparisonSnapshot_def Let_def)

end
